theory Spec2Isabelle
  imports Main "HOL-Library.Sublist"
begin

section \<open>Python strings\<close>

text \<open>
  Python's \<^verbatim>\<open>str.replace(old, new)\<close>: scanning from the left, every non-overlapping
  occurrence of \<open>old\<close> is replaced by \<open>new\<close>. For the empty \<open>old\<close> Python inserts
  \<open>new\<close> before every character and at the end.
\<close>

function replace :: "string \<Rightarrow> string \<Rightarrow> string \<Rightarrow> string" where
  "replace old new [] = (if old = [] then new else [])"
| "replace old new (c # cs) =
     (if old = [] then new @ c # replace old new cs
      else if prefix old (c # cs) then new @ replace old new (drop (length old) (c # cs))
      else c # replace old new cs)"
  by pat_completeness auto
termination
  by (relation "measure (\<lambda>(old, new, s). length s)") auto

text \<open>\<^verbatim>\<open>sep.join(xs)\<close>\<close>

fun join :: "string \<Rightarrow> string list \<Rightarrow> string" where
  "join sep [] = []"
| "join sep [x] = x"
| "join sep (x # y # ys) = x @ sep @ join sep (y # ys)"

text \<open>Decimal rendering of a non-negative integer, as an f-string prints \<^verbatim>\<open>len(...)\<close>.\<close>

definition digit_char :: "nat \<Rightarrow> char" where
  "digit_char d = ''0123456789'' ! d"

fun str_of_nat :: "nat \<Rightarrow> string" where
  "str_of_nat n = (if n < 10 then [digit_char n] else str_of_nat (n div 10) @ [digit_char (n mod 10)])"

declare str_of_nat.simps [simp del]

section \<open>The recipient table\<close>

text \<open>
  A cell of the uploaded table holds a Python string, a missing value (\<^verbatim>\<open>NaN\<close>/\<^verbatim>\<open>None\<close>,
  what \<^verbatim>\<open>isna()\<close> reports), or a number. A column has a dtype: \<^verbatim>\<open>object\<close>, whose cells
  hold any of the three, or a numeric one (\<^verbatim>\<open>int64\<close>, \<^verbatim>\<open>float64\<close>), whose cells are
  numbers or missing. A frame is its index (one label per row) and its columns in
  order, each a label with its values. The index of a loaded table is the default one,
  \<open>0, 1, \<dots>\<close>; any other labels, numeric or not, are possible.
\<close>

datatype cell = Str string | NaN | Num int

datatype series = ObjectSeries "cell list" | NumericSeries "int option list"

fun cells :: "series \<Rightarrow> cell list" where
  "cells (ObjectSeries cs) = cs"
| "cells (NumericSeries ns) = map (\<lambda>n. case n of None \<Rightarrow> NaN | Some i \<Rightarrow> Num i) ns"

datatype label = IntLabel int | StrLabel string

record dataframe =
  index :: "label list"
  data :: "(string \<times> series) list"

datatype py_exn =
    KeyError string
  | TypeError string
  | AttributeError string
  | ValueError string
  | OtherError string

definition columns :: "dataframe \<Rightarrow> string list" where
  "columns df = map fst (data df)"

text \<open>\<^verbatim>\<open>df[col]\<close>, which the code evaluates only for a label in \<^verbatim>\<open>df.columns\<close>.\<close>

definition getitem :: "dataframe \<Rightarrow> string \<Rightarrow> series" where
  "getitem df col = (case map_of (data df) col of Some s \<Rightarrow> s | None \<Rightarrow> ObjectSeries [])"

text \<open>\<^verbatim>\<open>len(df)\<close>\<close>

definition nrows :: "dataframe \<Rightarrow> nat" where
  "nrows df = length (index df)"


fun isna :: "cell \<Rightarrow> bool" where
  "isna NaN = True"
| "isna _ = False"

fun is_str :: "cell \<Rightarrow> bool" where
  "is_str (Str _) = True"
| "is_str _ = False"

fun is_num :: "cell \<Rightarrow> bool" where
  "is_num (Num _) = True"
| "is_num _ = False"

section \<open>The e-mail pattern\<close>

text \<open>
  \<^verbatim>\<open>^[a-zA-Z0-9._%+-]+@[a-zA-Z0-9.-]+\.[a-zA-Z]{2,}$\<close> under \<^verbatim>\<open>re.match\<close>.
  The local part is every character up to the first one outside its class, which has to
  be \<^verbatim>\<open>@\<close>. \<^verbatim>\<open>$\<close> matches at the end of the string or before one final newline. What is
  left splits at its last dot: letters only (at least two) after it, a non-empty run of
  domain characters before it.
\<close>

definition is_alpha :: "char \<Rightarrow> bool" where
  "is_alpha c = (let n = (of_char c :: nat) in (97 \<le> n \<and> n \<le> 122) \<or> (65 \<le> n \<and> n \<le> 90))"

definition is_digit :: "char \<Rightarrow> bool" where
  "is_digit c = (let n = (of_char c :: nat) in 48 \<le> n \<and> n \<le> 57)"

definition local_char :: "char \<Rightarrow> bool" where
  "local_char c = (is_alpha c \<or> is_digit c \<or> c \<in> set ''._%+-'')"

definition domain_char :: "char \<Rightarrow> bool" where
  "domain_char c = (is_alpha c \<or> is_digit c \<or> c \<in> set ''.-'')"

definition chop_newline :: "string \<Rightarrow> string" where
  "chop_newline s = (if s \<noteq> [] \<and> last s = CHR 0x0A then butlast s else s)"

definition domain_tld :: "string \<Rightarrow> bool" where
  "domain_tld s =
     (let b = chop_newline s;
          tld = rev (takeWhile (\<lambda>c. c \<noteq> CHR ''.'') (rev b));
          dom = take (length b - length tld - 1) b
      in length tld < length b \<and> 2 \<le> length tld \<and> list_all is_alpha tld
         \<and> dom \<noteq> [] \<and> list_all domain_char dom)"

definition email_pattern_match :: "string \<Rightarrow> bool" where
  "email_pattern_match s =
     (let loc = takeWhile local_char s
      in loc \<noteq> [] \<and>
         (case dropWhile local_char s of
            [] \<Rightarrow> False
          | c # r \<Rightarrow> c = CHR ''@'' \<and> domain_tld r))"

text \<open>
  \<^verbatim>\<open>Series.str.match(pattern, na=False)\<close> on one cell: a missing value gives the \<^verbatim>\<open>na\<close>
  default, a value that is not a string gives it too.
\<close>

fun str_match :: "cell \<Rightarrow> bool" where
  "str_match (Str s) = email_pattern_match s"
| "str_match _ = False"

text \<open>
  The \<^verbatim>\<open>.str\<close> accessor. pandas infers the kind of the values that are present
  (missing ones skipped) and raises \<^verbatim>\<open>AttributeError\<close> unless it is one of
  \<^verbatim>\<open>string\<close>, \<^verbatim>\<open>empty\<close>, \<^verbatim>\<open>mixed\<close>, \<^verbatim>\<open>mixed-integer\<close> (or \<^verbatim>\<open>bytes\<close>). A column of
  numeric dtype is \<^verbatim>\<open>integer\<close> or \<^verbatim>\<open>floating\<close> whatever it holds, also with no rows
  or with missing values only. An \<^verbatim>\<open>object\<close> column is \<^verbatim>\<open>empty\<close> when no value is
  present, numeric when the present values are all numbers, and a string or mixed kind
  as soon as one of them is a string.
\<close>

fun str_accessor :: "series \<Rightarrow> py_exn + cell list" where
  "str_accessor (NumericSeries ns) =
     Inl (AttributeError ''Can only use .str accessor with string values!'')"
| "str_accessor (ObjectSeries cs) =
     (if list_ex is_num cs \<and> \<not> list_ex is_str cs
      then Inl (AttributeError ''Can only use .str accessor with string values!'')
      else Inr cs)"

section \<open>Validation of the uploaded table\<close>

text \<open>
  \<^verbatim>\<open>EmailSender.validate_company_data\<close>. The function reads the frame and appends to its
  local list \<open>errors\<close>; the two are carried as the state of the three checks.
\<close>

record vstate =
  frame :: dataframe
  errors :: "string list"

definition required_columns :: "string list" where
  "required_columns = [''Company Name'', ''Recruiter'', ''Email'']"

definition missing_columns :: "dataframe \<Rightarrow> string list" where
  "missing_columns df = filter (\<lambda>col. col \<notin> set (columns df)) required_columns"

definition check_required :: "vstate \<Rightarrow> vstate" where
  "check_required st =
     (let missing = missing_columns (frame st)
      in if missing \<noteq> []
         then st\<lparr>errors := errors st @ [''Missing required columns: '' @ join '', '' missing]\<rparr>
         else st)"

definition empty_values_msg :: "string \<Rightarrow> string" where
  "empty_values_msg col = ''Column '' @ [CHR 0x27] @ col @ [CHR 0x27] @ '' contains empty values''"

definition check_empty_col :: "string \<Rightarrow> vstate \<Rightarrow> vstate" where
  "check_empty_col col st =
     (if col \<in> set (columns (frame st)) \<and> list_ex isna (cells (getitem (frame st) col))
      then st\<lparr>errors := errors st @ [empty_values_msg col]\<rparr>
      else st)"

definition check_empty :: "vstate \<Rightarrow> vstate" where
  "check_empty st = fold check_empty_col required_columns st"

definition invalid_emails :: "cell list \<Rightarrow> cell list" where
  "invalid_emails vs = filter (\<lambda>v. \<not> str_match v) vs"

definition check_email_format :: "vstate \<Rightarrow> py_exn + vstate" where
  "check_email_format st =
     (if ''Email'' \<in> set (columns (frame st))
      then (case str_accessor (getitem (frame st) ''Email'') of
              Inl e \<Rightarrow> Inl e
            | Inr vs \<Rightarrow>
                (let invalid = invalid_emails vs
                 in if invalid \<noteq> []
                    then Inr (st\<lparr>errors := errors st @
                           [''Invalid email addresses found: '' @ str_of_nat (length invalid) @ '' rows'']\<rparr>)
                    else Inr st))
      else Inr st)"

definition validate_state :: "dataframe \<Rightarrow> py_exn + vstate" where
  "validate_state df =
     check_email_format (check_empty (check_required \<lparr>frame = df, errors = []\<rparr>))"

definition validate_company_data :: "dataframe \<Rightarrow> py_exn + (bool \<times> string list)" where
  "validate_company_data df =
     (case validate_state df of
        Inl e \<Rightarrow> Inl e
      | Inr st \<Rightarrow> Inr (length (errors st) = 0, errors st))"

section \<open>Composition of one message\<close>

text \<open>
  \<^verbatim>\<open>text.replace(old, new)\<close> where \<open>new\<close> is a cell of the table: Python raises
  \<^verbatim>\<open>TypeError\<close> when the replacement is not a string.
\<close>

definition bind_exn :: "py_exn + 'a \<Rightarrow> ('a \<Rightarrow> py_exn + 'b) \<Rightarrow> py_exn + 'b" where
  "bind_exn m f = (case m of Inl e \<Rightarrow> Inl e | Inr x \<Rightarrow> f x)"

fun py_replace :: "string \<Rightarrow> cell \<Rightarrow> string \<Rightarrow> py_exn + string" where
  "py_replace old (Str new) s = Inr (replace old new s)"
| "py_replace old NaN s = Inl (TypeError ''replace() argument 2 must be str, not float'')"
| "py_replace old (Num n) s = Inl (TypeError ''replace() argument 2 must be str, not int'')"

text \<open>The four replacements of the body paths, in the order of the source.\<close>

definition substitute_body :: "string \<Rightarrow> cell \<Rightarrow> cell \<Rightarrow> py_exn + string" where
  "substitute_body text company_name recruiter_name =
     bind_exn (py_replace ''[Company Name]'' company_name text) (\<lambda>b1.
     bind_exn (py_replace ''[Recruiter Name]'' recruiter_name b1) (\<lambda>b2.
     bind_exn (py_replace ''[COMPANY]'' company_name b2) (\<lambda>b3.
     py_replace ''[RECRUITER]'' recruiter_name b3)))"

text \<open>The two replacements of the subject paths.\<close>

definition substitute_subject :: "string \<Rightarrow> cell \<Rightarrow> cell \<Rightarrow> py_exn + string" where
  "substitute_subject text company_name recruiter_name =
     bind_exn (py_replace ''[Company Name]'' company_name text) (\<lambda>s1.
     py_replace ''[Recruiter Name]'' recruiter_name s1)"

subsection \<open>The content-generation collaborator (\<^verbatim>\<open>GeminiAI\<close>)\<close>

text \<open>\<^verbatim>\<open>str.strip()\<close> on ASCII text.\<close>

definition is_space :: "char \<Rightarrow> bool" where
  "is_space c = (let n = (of_char c :: nat) in n = 32 \<or> (9 \<le> n \<and> n \<le> 13) \<or> (28 \<le> n \<and> n \<le> 31))"

definition strip :: "string \<Rightarrow> string" where
  "strip s = rev (dropWhile is_space (rev (dropWhile is_space s)))"

text \<open>
  What \<^verbatim>\<open>self.model.generate_content(prompt)\<close> does: it raises, it returns a response
  that is falsy, or a response with a text (which may be empty).
\<close>

datatype ai_response = GenRaises py_exn | GenNone | GenText string

type_synonym row = "string \<rightharpoonup> cell"

text \<open>
  The surroundings of a run: the fields of \<^verbatim>\<open>st.session_state\<close> the executor reads, the
  generation backend, the mail service and the clock. The backend and the mail service
  answer as functions of what they are given (the mail service also of the position of
  the recipient), so every behaviour of theirs is one value of this record. The last
  field is Python's rendering \<^verbatim>\<open>'%f' % ((i + 1) / n)\<close> of a quotient, which only an
  error text needs.
\<close>

record world =
  personalization_mode :: "string option"
  preview_email_content :: "string option"
  preview_email_subject :: "string option"
  resume_file :: "string option"
  model_configured :: bool
  extract_resume_content :: "string \<Rightarrow> string"
  generate_content :: "cell \<Rightarrow> cell \<Rightarrow> string \<Rightarrow> string \<Rightarrow> row \<Rightarrow> ai_response"
  get_service :: "nat \<Rightarrow> bool"
  create_email_message :: "cell \<Rightarrow> string \<Rightarrow> string \<Rightarrow> string option \<Rightarrow> string option \<Rightarrow> py_exn + string"
  execute_send :: "nat \<Rightarrow> string \<Rightarrow> py_exn + (string \<rightharpoonup> string)"
  strftime :: "nat \<Rightarrow> string"
  percent_f :: "int \<Rightarrow> nat \<Rightarrow> string"

definition newline3 :: string where
  "newline3 = [CHR 0x0A, CHR 0x0A, CHR 0x0A]"

definition newline2 :: string where
  "newline2 = [CHR 0x0A, CHR 0x0A]"

text \<open>\<^verbatim>\<open>GeminiAI._get_fallback_content\<close>\<close>

definition get_fallback_content :: "cell \<Rightarrow> cell \<Rightarrow> string \<Rightarrow> py_exn + string" where
  "get_fallback_content company_name recruiter_name base_template =
     bind_exn (substitute_body base_template company_name recruiter_name) (\<lambda>fallback_content.
     Inr (replace newline3 newline2 fallback_content))"

text \<open>
  \<^verbatim>\<open>GeminiAI.personalize_email\<close>. The \<^verbatim>\<open>except\<close> clause calls the fallback outside the
  \<^verbatim>\<open>try\<close>, so an exception of the fallback itself leaves the function.
\<close>

definition personalize_email ::
  "world \<Rightarrow> cell \<Rightarrow> cell \<Rightarrow> string \<Rightarrow> string \<Rightarrow> row \<Rightarrow> py_exn + string" where
  "personalize_email w company_name recruiter_name base_template resume_summary company_data =
     (if \<not> model_configured w
      then get_fallback_content company_name recruiter_name base_template
      else (case generate_content w company_name recruiter_name base_template resume_summary company_data of
              GenRaises e \<Rightarrow> get_fallback_content company_name recruiter_name base_template
            | GenNone \<Rightarrow> get_fallback_content company_name recruiter_name base_template
            | GenText t \<Rightarrow>
                if t \<noteq> [] then Inr (strip t)
                else get_fallback_content company_name recruiter_name base_template))"

subsection \<open>Body and subject of one recipient\<close>

text \<open>One entry of the result log, and what a run does to the outside, in order.\<close>

record result =
  company :: cell
  recruiter :: cell
  email :: cell
  subject :: string
  success :: bool
  message :: string
  timestamp :: string

datatype event =
    ExtractResume
  | PersonalizeCall cell cell
  | Transport cell string
  | Progress result
  | Sleep int

definition ai_mode :: string where
  "ai_mode = [CHR 0xF0, CHR 0x9F, CHR 0xA4, CHR 0x96] @ '' AI-Powered Personalization''"

text \<open>
  Lines 226 to 256 of \<^verbatim>\<open>run_campaign\<close>: the body, with the calls made to the
  collaborator on the way.
\<close>

definition compose_body ::
  "world \<Rightarrow> string \<Rightarrow> cell \<Rightarrow> cell \<Rightarrow> row \<Rightarrow> (py_exn + string) \<times> event list" where
  "compose_body w email_template company_name recruiter_name r =
     (let mode = (case personalization_mode w of None \<Rightarrow> ai_mode | Some m \<Rightarrow> m)
      in if mode = ai_mode
         then (case preview_email_content w of
                 Some edited \<Rightarrow> (substitute_body edited company_name recruiter_name, [])
               | None \<Rightarrow>
                   (let (resume_summary, ev) =
                          (case resume_file w of
                             None \<Rightarrow> ([], [])
                           | Some f \<Rightarrow> (extract_resume_content w f, [ExtractResume]))
                    in (personalize_email w company_name recruiter_name email_template resume_summary r,
                        ev @ [PersonalizeCall company_name recruiter_name])))
         else (substitute_body email_template company_name recruiter_name, []))"

text \<open>Lines 258 to 268: the subject.\<close>

definition compose_subject :: "world \<Rightarrow> string \<Rightarrow> cell \<Rightarrow> cell \<Rightarrow> py_exn + string" where
  "compose_subject w subject_template company_name recruiter_name =
     (case preview_email_subject w of
        Some edited \<Rightarrow> substitute_subject edited company_name recruiter_name
      | None \<Rightarrow> substitute_subject subject_template company_name recruiter_name)"

text \<open>\<^verbatim>\<open>row['key']\<close> raises \<^verbatim>\<open>KeyError\<close> on a column the table does not have.\<close>

definition row_getitem :: "row \<Rightarrow> string \<Rightarrow> py_exn + cell" where
  "row_getitem r k = (case r k of None \<Rightarrow> Inl (KeyError k) | Some v \<Rightarrow> Inr v)"

definition row_get :: "row \<Rightarrow> string \<Rightarrow> cell \<Rightarrow> cell" where
  "row_get r k d = (case r k of None \<Rightarrow> d | Some v \<Rightarrow> v)"

record message_draft =
  company_name :: cell
  recruiter_name :: cell
  email_address :: cell
  personalized_subject :: string
  personalized_body :: string

text \<open>Lines 219 to 268: everything of the \<^verbatim>\<open>try\<close> block before the send.\<close>

definition compose ::
  "world \<Rightarrow> string \<Rightarrow> string \<Rightarrow> row \<Rightarrow> (py_exn + message_draft) \<times> event list" where
  "compose w email_template subject_template r =
     (case row_getitem r ''Company Name'' of
        Inl e \<Rightarrow> (Inl e, [])
      | Inr cn \<Rightarrow>
     (case row_getitem r ''Recruiter'' of
        Inl e \<Rightarrow> (Inl e, [])
      | Inr rn \<Rightarrow>
     (case row_getitem r ''Email'' of
        Inl e \<Rightarrow> (Inl e, [])
      | Inr ea \<Rightarrow>
     (case compose_body w email_template cn rn r of
        (Inl e, ev) \<Rightarrow> (Inl e, ev)
      | (Inr body, ev) \<Rightarrow>
     (case compose_subject w subject_template cn rn of
        Inl e \<Rightarrow> (Inl e, ev)
      | Inr subj \<Rightarrow>
          (Inr \<lparr>company_name = cn, recruiter_name = rn, email_address = ea,
                personalized_subject = subj, personalized_body = body\<rparr>, ev))))))"

section \<open>Sending one message\<close>

text \<open>\<^verbatim>\<open>str(e)\<close>; for a \<^verbatim>\<open>KeyError\<close> it is the key in quotes.\<close>

fun str_exn :: "py_exn \<Rightarrow> string" where
  "str_exn (KeyError k) = [CHR 0x27] @ k @ [CHR 0x27]"
| "str_exn (TypeError m) = m"
| "str_exn (AttributeError m) = m"
| "str_exn (ValueError m) = m"
| "str_exn (OtherError m) = m"

text \<open>The \<^verbatim>\<open>try\<close> block of \<^verbatim>\<open>EmailSender.send_email\<close>.\<close>

definition send_email_try ::
  "world \<Rightarrow> nat \<Rightarrow> cell \<Rightarrow> string \<Rightarrow> string \<Rightarrow> string option \<Rightarrow> string option
     \<Rightarrow> (py_exn + bool \<times> string) \<times> event list" where
  "send_email_try w i to_email subj body attachment_path attachment_name =
     (if \<not> get_service w i
      then (Inr (False, ''Gmail service not available''), [])
      else (case create_email_message w to_email subj body attachment_path attachment_name of
              Inl e \<Rightarrow> (Inl e, [])
            | Inr raw_message \<Rightarrow>
                (case execute_send w i raw_message of
                   Inl e \<Rightarrow> (Inl e, [Transport to_email raw_message])
                 | Inr response \<Rightarrow>
                     (case response ''id'' of
                        None \<Rightarrow> (Inl (KeyError ''id''), [Transport to_email raw_message])
                      | Some mid \<Rightarrow>
                          (Inr (True, ''Email sent successfully (ID: '' @ mid @ '')''),
                           [Transport to_email raw_message])))))"

text \<open>\<^verbatim>\<open>EmailSender.send_email\<close>: the block with its \<^verbatim>\<open>except Exception\<close> clause.\<close>

definition send_email ::
  "world \<Rightarrow> nat \<Rightarrow> cell \<Rightarrow> string \<Rightarrow> string \<Rightarrow> string option \<Rightarrow> string option
     \<Rightarrow> (py_exn + bool \<times> string) \<times> event list" where
  "send_email w i to_email subj body attachment_path attachment_name =
     (case send_email_try w i to_email subj body attachment_path attachment_name of
        (Inl e, ev) \<Rightarrow> (Inr (False, ''Failed to send email: '' @ str_exn e), ev)
      | (Inr r, ev) \<Rightarrow> (Inr r, ev))"

section \<open>The campaign executor\<close>

text \<open>
  The state of a run is the result log and, beside it, the trace of what the run did to
  the outside. The calls that only write a text to the page (\<^verbatim>\<open>st.info\<close>, the status
  line) take no part in either and are left out. The session fields are read on every
  pass and are taken not to change during a run.
\<close>

record cstate =
  campaign_results :: "result list"
  trace :: "event list"

record campaign =
  email_template :: string
  subject_template :: string
  resume_path :: "string option"
  resume_name :: "string option"
  delay_seconds :: int
  progress_callback :: "(result \<Rightarrow> py_exn option) option"

text \<open>
  Lines 216 and 217: \<^verbatim>\<open>progress = (index + 1) / total_emails\<close> with the index label of the
  row, then \<^verbatim>\<open>progress_bar.progress(progress)\<close>. The sum raises \<^verbatim>\<open>TypeError\<close> on a label
  that is not a number, and Streamlit raises unless the value lies between 0.0 and 1.0.
\<close>

definition progress_bar_update :: "world \<Rightarrow> label \<Rightarrow> nat \<Rightarrow> py_exn option" where
  "progress_bar_update w lbl total_emails =
     (case lbl of
        StrLabel s \<Rightarrow>
          Some (TypeError (''can only concatenate str (not '' @ [CHR 0x22] @ ''int'' @ [CHR 0x22]
                           @ '') to str''))
      | IntLabel i \<Rightarrow>
          if 0 \<le> i + 1 \<and> i + 1 \<le> int total_emails then None
          else Some (OtherError (''Progress Value has invalid value [0.0, 1.0]: ''
                                 @ percent_f w i total_emails)))"

text \<open>Line 292: \<^verbatim>\<open>index < total_emails - 1\<close>, again with the index label.\<close>

definition before_last :: "label \<Rightarrow> nat \<Rightarrow> py_exn + bool" where
  "before_last lbl total_emails =
     (case lbl of
        StrLabel s \<Rightarrow>
          Inl (TypeError (''<'' @ '' not supported between instances of ''
                          @ [CHR 0x27] @ ''str'' @ [CHR 0x27] @ '' and ''
                          @ [CHR 0x27] @ ''int'' @ [CHR 0x27]))
      | IntLabel i \<Rightarrow> Inr (i < int total_emails - 1))"

text \<open>\<^verbatim>\<open>time.sleep(d)\<close> raises \<^verbatim>\<open>ValueError\<close> for a negative \<open>d\<close>.\<close>

definition sleep :: "int \<Rightarrow> cstate \<Rightarrow> py_exn option \<times> cstate" where
  "sleep d st =
     (if d < 0 then (Some (ValueError ''sleep length must be non-negative''), st)
      else (None, st\<lparr>trace := trace st @ [Sleep d]\<rparr>))"

definition call_progress ::
  "(result \<Rightarrow> py_exn option) option \<Rightarrow> result \<Rightarrow> cstate \<Rightarrow> py_exn option \<times> cstate" where
  "call_progress cb r st =
     (case cb of
        None \<Rightarrow> (None, st)
      | Some f \<Rightarrow> (f r, st\<lparr>trace := trace st @ [Progress r]\<rparr>))"

text \<open>
  The \<^verbatim>\<open>try\<close> block of the loop body, for the row with index label \<open>lbl\<close>, which is the
  \<open>k\<close>-th row the loop visits: the exception that leaves the block, if any, and the state
  it leaves behind. The position \<open>k\<close> only selects the answers of the mail service and
  of the clock; all the arithmetic of the block is on the label.
\<close>

definition process_recipient ::
  "world \<Rightarrow> campaign \<Rightarrow> nat \<Rightarrow> nat \<Rightarrow> label \<Rightarrow> row \<Rightarrow> cstate \<Rightarrow> py_exn option \<times> cstate" where
  "process_recipient w c total_emails k lbl r st =
     (case progress_bar_update w lbl total_emails of
        Some e \<Rightarrow> (Some e, st)
      | None \<Rightarrow>
     (case compose w (email_template c) (subject_template c) r of
        (Inl e, ev) \<Rightarrow> (Some e, st\<lparr>trace := trace st @ ev\<rparr>)
      | (Inr m, ev) \<Rightarrow>
          (case send_email w k (email_address m) (personalized_subject m) (personalized_body m)
                  (resume_path c) (resume_name c) of
             (Inl e, ev2) \<Rightarrow> (Some e, st\<lparr>trace := trace st @ ev @ ev2\<rparr>)
           | (Inr (ok, msg), ev2) \<Rightarrow>
               (let res = \<lparr>company = company_name m, recruiter = recruiter_name m,
                           email = email_address m, subject = personalized_subject m,
                           success = ok, message = msg, timestamp = strftime w k\<rparr>;
                    st1 = st\<lparr>campaign_results := campaign_results st @ [res],
                             trace := trace st @ ev @ ev2\<rparr>
                in (case call_progress (progress_callback c) res st1 of
                      (Some e, st2) \<Rightarrow> (Some e, st2)
                    | (None, st2) \<Rightarrow>
                        (case before_last lbl total_emails of
                           Inl e \<Rightarrow> (Some e, st2)
                         | Inr True \<Rightarrow> sleep (delay_seconds c) st2
                         | Inr False \<Rightarrow> (None, st2)))))))"

definition error_result :: "world \<Rightarrow> nat \<Rightarrow> row \<Rightarrow> py_exn \<Rightarrow> result" where
  "error_result w k r e =
     \<lparr>company = row_get r ''Company Name'' (Str ''Unknown''),
      recruiter = row_get r ''Recruiter'' (Str ''Unknown''),
      email = row_get r ''Email'' (Str ''Unknown''),
      subject = ''Error'',
      success = False,
      message = ''Campaign error: '' @ str_exn e,
      timestamp = strftime w k\<rparr>"

text \<open>One pass of the loop: the \<^verbatim>\<open>try\<close> block and its \<^verbatim>\<open>except Exception\<close> clause.\<close>

definition run_recipient ::
  "world \<Rightarrow> campaign \<Rightarrow> nat \<Rightarrow> nat \<times> label \<times> row \<Rightarrow> cstate \<Rightarrow> cstate" where
  "run_recipient w c total_emails p st =
     (case process_recipient w c total_emails (fst p) (fst (snd p)) (snd (snd p)) st of
        (None, st') \<Rightarrow> st'
      | (Some e, st') \<Rightarrow>
          st'\<lparr>campaign_results :=
                campaign_results st' @ [error_result w (fst p) (snd (snd p)) e]\<rparr>)"

text \<open>
  \<^verbatim>\<open>df.iterrows()\<close>: the rows in order, each with its index label. The cells of row \<open>i\<close>
  are looked up by position in columns that are as long as the index.
\<close>

definition row_at :: "dataframe \<Rightarrow> nat \<Rightarrow> row" where
  "row_at df i = map_of (map (\<lambda>(col, s). (col, cells s ! i)) (data df))"

definition iterrows :: "dataframe \<Rightarrow> (label \<times> row) list" where
  "iterrows df = map (\<lambda>i. (index df ! i, row_at df i)) [0..<nrows df]"

text \<open>
  \<^verbatim>\<open>EmailSender.run_campaign\<close>: the log is reset, then the loop runs over the rows, which
  are counted as they come.
\<close>

definition run_campaign_state :: "world \<Rightarrow> campaign \<Rightarrow> dataframe \<Rightarrow> cstate" where
  "run_campaign_state w c company_data =
     fold (run_recipient w c (nrows company_data)) (enumerate 0 (iterrows company_data))
       \<lparr>campaign_results = [], trace = []\<rparr>"

definition run_campaign :: "world \<Rightarrow> campaign \<Rightarrow> dataframe \<Rightarrow> result list" where
  "run_campaign w c company_data = campaign_results (run_campaign_state w c company_data)"



section \<open>Sample inputs\<close>

text \<open>
  Concrete surroundings and tables for the examples below. The first world has a
  transport that accepts every message, a backend that is not configured, the manual
  template mode and no saved preview; the others change the fields they name. The
  first table is the one of the repository's own test.
\<close>

definition sample_world :: world where
  "sample_world =
     \<lparr>personalization_mode = Some ''Manual Template'',
      preview_email_content = None,
      preview_email_subject = None,
      resume_file = None,
      model_configured = False,
      extract_resume_content = (\<lambda>f. ''resume text''),
      generate_content = (\<lambda>cn rn tpl res r. GenNone),
      get_service = (\<lambda>i. True),
      create_email_message = (\<lambda>to_email subj body p n. Inr (subj @ ''|'' @ body)),
      execute_send = (\<lambda>i raw. Inr [''id'' \<mapsto> ''m1'']),
      strftime = (\<lambda>i. ''2024-01-01 00:00:00''),
      percent_f = (\<lambda>i n. ''1.500000'')\<rparr>"

definition sample_campaign :: campaign where
  "sample_campaign =
     \<lparr>email_template = ''Hi [Recruiter Name] at [Company Name]'',
      subject_template = ''Interest in Opportunities at [Company Name]'',
      resume_path = None,
      resume_name = None,
      delay_seconds = 60,
      progress_callback = None\<rparr>"

definition sample_frame :: dataframe where
  "sample_frame =
     \<lparr>index = [IntLabel 0],
      data = [(''Company Name'', ObjectSeries [Str ''Test Company'']),
              (''Recruiter'', ObjectSeries [Str ''John Doe'']),
              (''Email'', ObjectSeries [Str ''test@example.com''])]\<rparr>"

definition header_only_frame :: dataframe where
  "header_only_frame =
     \<lparr>index = [],
      data = [(''Company Name'', ObjectSeries []), (''Recruiter'', ObjectSeries []),
              (''Email'', ObjectSeries [])]\<rparr>"

definition empty_float_frame :: dataframe where
  "empty_float_frame =
     \<lparr>index = [],
      data = [(''Company Name'', NumericSeries []), (''Recruiter'', NumericSeries []),
              (''Email'', NumericSeries [])]\<rparr>"

definition numeric_email_frame :: dataframe where
  "numeric_email_frame =
     \<lparr>index = [IntLabel 0],
      data = [(''Company Name'', ObjectSeries [Str ''Acme'']),
              (''Recruiter'', ObjectSeries [NaN]),
              (''Email'', NumericSeries [Some 42])]\<rparr>"

definition mixed_email_frame :: dataframe where
  "mixed_email_frame =
     \<lparr>index = [IntLabel 0, IntLabel 1],
      data = [(''Company Name'', ObjectSeries [Str ''Acme'', Str ''Bolt'']),
              (''Recruiter'', ObjectSeries [Str ''Jane'', NaN]),
              (''Email'', ObjectSeries [Str ''jane@acme.com'', Num 42])]\<rparr>"

definition failing_world :: world where
  "failing_world =
     sample_world\<lparr>execute_send :=
       (\<lambda>i raw. if i = 1 then Inl (OtherError ''quota exceeded'') else Inr [''id'' \<mapsto> ''m1''])\<rparr>"

definition two_row_frame :: dataframe where
  "two_row_frame =
     \<lparr>index = [IntLabel 0, IntLabel 1],
      data = [(''Company Name'', ObjectSeries [Str ''Acme'', Str ''Bolt'']),
              (''Recruiter'', ObjectSeries [Str ''Jane'', Str ''Raj'']),
              (''Email'', ObjectSeries [Str ''jane@acme.com'', Str ''raj@bolt.io''])]\<rparr>"

definition three_row_frame :: dataframe where
  "three_row_frame =
     \<lparr>index = [IntLabel 0, IntLabel 1, IntLabel 2],
      data = [(''Company Name'', ObjectSeries [Str ''Acme'', Str ''Bolt'', Num 42]),
              (''Recruiter'', ObjectSeries [Str ''Jane'', Str ''Raj'', Str ''Quinn'']),
              (''Email'', ObjectSeries [Str ''jane@acme.com'', Str ''raj@bolt.io'',
                                        Str ''quinn@fortytwo.org''])]\<rparr>"

definition numeric_company_frame :: dataframe where
  "numeric_company_frame =
     \<lparr>index = [IntLabel 0, IntLabel 1],
      data = [(''Company Name'', NumericSeries [Some 7, Some 42]),
              (''Recruiter'', ObjectSeries [Str ''Jane'', Str ''Quinn'']),
              (''Email'', ObjectSeries [Str ''jane@seven.com'', Str ''quinn@fortytwo.org''])]\<rparr>"

text \<open>The two rows of \<open>two_row_frame\<close> under the index labels 1 and 0.\<close>

definition swapped_index_frame :: dataframe where
  "swapped_index_frame = two_row_frame\<lparr>index := [IntLabel 1, IntLabel 0]\<rparr>"

definition raising_callback_campaign :: campaign where
  "raising_callback_campaign =
     sample_campaign\<lparr>progress_callback := Some (\<lambda>r. Some (OtherError ''render failed''))\<rparr>"

definition negative_delay_campaign :: campaign where
  "negative_delay_campaign = sample_campaign\<lparr>delay_seconds := - 1\<rparr>"

definition override_world :: world where
  "override_world =
     sample_world\<lparr>personalization_mode := Some ai_mode,
                  preview_email_content := Some ''Hello [Recruiter Name] of [COMPANY]'',
                  preview_email_subject := Some ''A note for [Recruiter Name]'',
                  resume_file := Some ''pdf bytes'',
                  model_configured := True,
                  generate_content := (\<lambda>cn rn tpl res r. GenText ''generated text'')\<rparr>"

definition short_reply_world :: world where
  "short_reply_world =
     sample_world\<lparr>personalization_mode := Some ai_mode,
                  model_configured := True,
                  generate_content := (\<lambda>cn rn tpl res r. GenText ''Hi'')\<rparr>"

section \<open>Predicates on the trace and on a log entry\<close>



text \<open>The state a run starts from, and the state a single pass is looked at from.\<close>

definition empty_state :: cstate where
  "empty_state = \<lparr>campaign_results = [], trace = []\<rparr>"

text \<open>
  What the log entry of the \<open>k\<close>-th recipient has to say: the recipient's three fields,
  and the outcome of the progress update, of the composition and of the send.
\<close>

definition records_outcome ::
  "world \<Rightarrow> campaign \<Rightarrow> nat \<Rightarrow> nat \<Rightarrow> label \<Rightarrow> row \<Rightarrow> result \<Rightarrow> bool" where
  "records_outcome w c n k lbl r res =
     (company res = row_get r ''Company Name'' (Str ''Unknown'') \<and>
      recruiter res = row_get r ''Recruiter'' (Str ''Unknown'') \<and>
      email res = row_get r ''Email'' (Str ''Unknown'') \<and>
      (case progress_bar_update w lbl n of
         Some e \<Rightarrow> \<not> success res \<and> message res = ''Campaign error: '' @ str_exn e
       | None \<Rightarrow>
      (case fst (compose w (email_template c) (subject_template c) r) of
         Inl e \<Rightarrow> \<not> success res \<and> message res = ''Campaign error: '' @ str_exn e
       | Inr m \<Rightarrow>
           (case fst (send_email_try w k (email_address m) (personalized_subject m)
                        (personalized_body m) (resume_path c) (resume_name c)) of
              Inl e \<Rightarrow> \<not> success res \<and> message res = ''Failed to send email: '' @ str_exn e
            | Inr (ok, msg) \<Rightarrow> success res = ok \<and> message res = msg \<and>
                               subject res = personalized_subject m))))"


section \<open>Placeholder tokens\<close>

text \<open>
  The four recognised tokens. Each is an opening bracket, a text without brackets and a
  closing bracket. A text is flat when its brackets alternate, an opening one first:
  no bracket pair lies inside another.
\<close>

definition tokens :: "string list" where
  "tokens = [''[Company Name]'', ''[Recruiter Name]'', ''[COMPANY]'', ''[RECRUITER]'']"

definition bracket_free :: "string \<Rightarrow> bool" where
  "bracket_free s = (CHR ''['' \<notin> set s \<and> CHR '']'' \<notin> set s)"

definition is_token :: "string \<Rightarrow> bool" where
  "is_token t = (\<exists>w. t = CHR ''['' # w @ [CHR '']''] \<and> bracket_free w)"

fun flat_brackets :: "bool \<Rightarrow> string \<Rightarrow> bool" where
  "flat_brackets inside [] = True"
| "flat_brackets inside (c # cs) =
     (if c = CHR ''['' then \<not> inside \<and> flat_brackets True cs
      else if c = CHR '']'' then inside \<and> flat_brackets False cs
      else flat_brackets inside cs)"

section \<open>The e-mail pattern, read as a regular expression\<close>

text \<open>
  The matcher accepts exactly the strings the pattern describes: a non-empty local part,
  \<^verbatim>\<open>@\<close>, a non-empty domain, a dot, at least two letters, and at most one final
  newline.
\<close>

lemma at_not_local: "\<not> local_char CHR ''@''"
  by (simp add: local_char_def is_alpha_def is_digit_def)

lemma alpha_not_dot: "is_alpha c \<Longrightarrow> c \<noteq> CHR ''.''"
  by (auto simp: is_alpha_def)

lemma alpha_not_newline: "is_alpha c \<Longrightarrow> c \<noteq> CHR 0x0A"
  by (auto simp: is_alpha_def)

lemma chop_newline_cases: "\<exists>e. s = chop_newline s @ e \<and> (e = [] \<or> e = [CHR 0x0A])"
proof (cases "s \<noteq> [] \<and> last s = CHR 0x0A")
  case True
  then have "s = butlast s @ [CHR 0x0A]" by (metis append_butlast_last_id)
  with True show ?thesis by (auto simp: chop_newline_def)
next
  case False
  then show ?thesis by (auto simp: chop_newline_def)
qed

lemma chop_newline_tld:
  assumes "tld \<noteq> []" and "list_all is_alpha tld" and "e = [] \<or> e = [CHR 0x0A]"
  shows "chop_newline (dm @ CHR ''.'' # tld @ e) = dm @ CHR ''.'' # tld"
proof -
  from assms(1,2) have "last tld \<noteq> CHR 0x0A"
    by (metis alpha_not_newline last_in_set list_all_iff)
  with assms(1,3) show ?thesis
    by (auto simp: chop_newline_def butlast_append)
qed

lemma domain_tld_intro:
  assumes "dm \<noteq> []" "list_all domain_char dm" "2 \<le> length tld" "list_all is_alpha tld"
      and "e = [] \<or> e = [CHR 0x0A]"
  shows "domain_tld (dm @ CHR ''.'' # tld @ e)"
proof -
  from assms(3) have ne: "tld \<noteq> []" by auto
  have b: "chop_newline (dm @ CHR ''.'' # tld @ e) = dm @ CHR ''.'' # tld"
    by (rule chop_newline_tld[OF ne assms(4,5)])
  have "takeWhile (\<lambda>c. c \<noteq> CHR ''.'') (rev tld @ CHR ''.'' # rev dm)
          = rev tld @ takeWhile (\<lambda>c. c \<noteq> CHR ''.'') (CHR ''.'' # rev dm)"
    by (rule takeWhile_append2) (use assms(4) alpha_not_dot in \<open>auto simp: list_all_iff\<close>)
  then have t: "takeWhile (\<lambda>c. c \<noteq> CHR ''.'') (rev (dm @ CHR ''.'' # tld)) = rev tld"
    by simp
  show ?thesis
    unfolding domain_tld_def b Let_def t using assms by simp
qed

lemma domain_tld_elim:
  assumes "domain_tld r"
  shows "\<exists>dm tld e. r = dm @ CHR ''.'' # tld @ e \<and> dm \<noteq> [] \<and> list_all domain_char dm \<and>
           2 \<le> length tld \<and> list_all is_alpha tld \<and> (e = [] \<or> e = [CHR 0x0A])"
proof -
  let ?b = "chop_newline r"
  let ?tw = "takeWhile (\<lambda>c. c \<noteq> CHR ''.'') (rev ?b)"
  let ?dw = "dropWhile (\<lambda>c. c \<noteq> CHR ''.'') (rev ?b)"
  let ?tld = "rev ?tw"
  let ?dmn = "take (length ?b - length ?tld - 1) ?b"
  from assms have lt: "length ?tld < length ?b" and l2: "2 \<le> length ?tld"
    and al: "list_all is_alpha ?tld" and dn: "?dmn \<noteq> []" and dc: "list_all domain_char ?dmn"
    by (simp_all add: domain_tld_def Let_def)
  have split: "rev ?b = ?tw @ ?dw" by simp
  from lt have "?dw \<noteq> []"
    by (metis split append_Nil2 length_rev less_irrefl)
  then obtain x xs where dw: "?dw = x # xs" by (cases ?dw) auto
  have "\<not> (hd ?dw \<noteq> CHR ''.'')" using \<open>?dw \<noteq> []\<close> by (rule hd_dropWhile)
  with dw have x: "x = CHR ''.''" by simp
  have "?b = rev (?tw @ ?dw)" using split by (metis rev_rev_ident)
  then have bb: "?b = rev xs @ CHR ''.'' # ?tld" by (simp add: dw x)
  have "length ?b - length ?tld - 1 = length (rev xs)"
    by (subst bb) simp
  then have dom_eq: "?dmn = rev xs" by (subst (2) bb) simp
  have "rev xs \<noteq> []" using dn unfolding dom_eq .
  moreover have "list_all domain_char (rev xs)" using dc unfolding dom_eq .
  moreover from chop_newline_cases[of r] obtain e where "r = ?b @ e" "e = [] \<or> e = [CHR 0x0A]"
    by blast
  ultimately show ?thesis using bb l2 al
    by (metis append.assoc append_Cons)
qed

lemma email_pattern_match_iff:
  "email_pattern_match s \<longleftrightarrow>
     (\<exists>loc dm tld e. s = loc @ CHR ''@'' # dm @ CHR ''.'' # tld @ e \<and>
        loc \<noteq> [] \<and> list_all local_char loc \<and>
        dm \<noteq> [] \<and> list_all domain_char dm \<and>
        2 \<le> length tld \<and> list_all is_alpha tld \<and>
        (e = [] \<or> e = [CHR 0x0A]))"
proof
  assume m: "email_pattern_match s"
  let ?loc = "takeWhile local_char s"
  from m have ne: "?loc \<noteq> []" by (simp add: email_pattern_match_def Let_def)
  from m obtain r where dr: "dropWhile local_char s = CHR ''@'' # r" and dt: "domain_tld r"
    by (auto simp: email_pattern_match_def Let_def split: list.splits)
  have s: "s = ?loc @ CHR ''@'' # r" using dr by (metis takeWhile_dropWhile_id)
  have la: "list_all local_char ?loc" by (auto simp: list_all_iff dest: set_takeWhileD)
  from domain_tld_elim[OF dt] s ne la show "\<exists>loc dm tld e. s = loc @ CHR ''@'' # dm @ CHR ''.'' # tld @ e \<and>
        loc \<noteq> [] \<and> list_all local_char loc \<and>
        dm \<noteq> [] \<and> list_all domain_char dm \<and>
        2 \<le> length tld \<and> list_all is_alpha tld \<and>
        (e = [] \<or> e = [CHR 0x0A])"
    by metis
next
  assume "\<exists>loc dm tld e. s = loc @ CHR ''@'' # dm @ CHR ''.'' # tld @ e \<and>
        loc \<noteq> [] \<and> list_all local_char loc \<and>
        dm \<noteq> [] \<and> list_all domain_char dm \<and>
        2 \<le> length tld \<and> list_all is_alpha tld \<and>
        (e = [] \<or> e = [CHR 0x0A])"
  then obtain loc dm tld e where s: "s = loc @ CHR ''@'' # dm @ CHR ''.'' # tld @ e"
    and loc: "loc \<noteq> []" "list_all local_char loc"
    and rest: "dm \<noteq> []" "list_all domain_char dm" "2 \<le> length tld" "list_all is_alpha tld"
              "e = [] \<or> e = [CHR 0x0A]"
    by blast
  from loc(2) have all: "\<forall>c\<in>set loc. local_char c" by (simp add: list_all_iff)
  have tw: "takeWhile local_char s = loc"
    unfolding s using all at_not_local by (simp add: takeWhile_append2)
  have dw: "dropWhile local_char s = CHR ''@'' # dm @ CHR ''.'' # tld @ e"
    unfolding s using all at_not_local by (simp add: dropWhile_append2)
  show "email_pattern_match s"
    unfolding email_pattern_match_def Let_def tw dw
    using loc(1) domain_tld_intro[OF rest] by simp
qed

section \<open>Properties of the validator\<close>


lemma frame_check_required [simp]: "frame (check_required st) = frame st"
  by (simp add: check_required_def Let_def)

lemma frame_check_empty_col [simp]: "frame (check_empty_col col st) = frame st"
  by (simp add: check_empty_col_def)

lemma frame_check_empty [simp]: "frame (check_empty st) = frame st"
  by (simp add: check_empty_def required_columns_def)

lemma errors_check_required:
  "errors (check_required st) = errors st @
     (if missing_columns (frame st) \<noteq> []
      then [''Missing required columns: '' @ join '', '' (missing_columns (frame st))] else [])"
  by (simp add: check_required_def Let_def)

lemma errors_check_empty:
  "errors (check_empty st) = errors st @
     concat (map (\<lambda>col. if col \<in> set (columns (frame st)) \<and>
                             list_ex isna (cells (getitem (frame st) col))
                          then [empty_values_msg col] else []) required_columns)"
  by (simp add: check_empty_def required_columns_def check_empty_col_def)

lemma check_email_format_frame: "check_email_format st = Inr st' \<Longrightarrow> frame st' = frame st"
  by (auto simp: check_email_format_def Let_def split: if_splits sum.splits)





lemmas validate_defs =
  validate_company_data_def validate_state_def check_email_format_def check_empty_def
  check_empty_col_def check_required_def missing_columns_def required_columns_def columns_def
  getitem_def invalid_emails_def empty_values_msg_def

lemmas pattern_defs =
  email_pattern_match_def domain_tld_def chop_newline_def local_char_def domain_char_def
  is_alpha_def is_digit_def

lemmas frame_defs =
  sample_frame_def header_only_frame_def empty_float_frame_def numeric_email_frame_def
  mixed_email_frame_def two_row_frame_def three_row_frame_def numeric_company_frame_def
  swapped_index_frame_def




lemma validate_returns_on_text:
  assumes "''Email'' \<in> set (columns df) \<longrightarrow> \<not> isl (str_accessor (getitem df ''Email''))"
  shows "\<exists>st. validate_state df = Inr st \<and> frame st = df \<and>
           (\<exists>extra. errors st =
                errors (check_empty (check_required \<lparr>frame = df, errors = []\<rparr>)) @ extra \<and>
              (extra = [] \<or> extra = [''Invalid email addresses found: '' @
                  str_of_nat (length (invalid_emails (cells (getitem df ''Email'')))) @ '' rows'']))"
proof (cases "''Email'' \<in> set (columns df)")
  case False
  then show ?thesis by (simp add: validate_state_def check_email_format_def)
next
  case True
  with assms have ni: "\<not> isl (str_accessor (getitem df ''Email''))" by simp
  have "str_accessor (getitem df ''Email'') = Inr (cells (getitem df ''Email''))"
  proof (cases "getitem df ''Email''")
    case (ObjectSeries cs)
    with ni show ?thesis by (auto split: if_splits)
  next
    case (NumericSeries ns)
    with ni show ?thesis by simp
  qed
  with True show ?thesis
    by (auto simp: validate_state_def check_email_format_def Let_def)
qed

lemma validate_raises_on_numeric:
  assumes "''Email'' \<in> set (columns df)" and "isl (str_accessor (getitem df ''Email''))"
  shows "validate_company_data df =
           Inl (AttributeError ''Can only use .str accessor with string values!'')"
proof -
  from assms(2) have "str_accessor (getitem df ''Email'')
        = Inl (AttributeError ''Can only use .str accessor with string values!'')"
    by (cases "getitem df ''Email''") (auto split: if_splits)
  with assms(1) show ?thesis
    by (simp add: validate_company_data_def validate_state_def check_email_format_def)
qed

text \<open>
  The validator returns exactly on the tables whose \<open>Email\<close> column is absent or taken
  by the accessor, and then the table it leaves behind is the one it was given.
\<close>

lemma validate_returns_or_raises:
  "(''Email'' \<in> set (columns df) \<and> isl (str_accessor (getitem df ''Email'')) \<longrightarrow>
      validate_company_data df =
        Inl (AttributeError ''Can only use .str accessor with string values!''))
   \<and> ((''Email'' \<in> set (columns df) \<longrightarrow> \<not> isl (str_accessor (getitem df ''Email''))) \<longrightarrow>
      (\<exists>st. validate_state df = Inr st \<and> frame st = df \<and>
            validate_company_data df = Inr (errors st = [], errors st)))"
proof (intro conjI impI)
  assume "''Email'' \<in> set (columns df) \<and> isl (str_accessor (getitem df ''Email''))"
  then show "validate_company_data df =
        Inl (AttributeError ''Can only use .str accessor with string values!'')"
    by (intro validate_raises_on_numeric) auto
next
  assume a: "''Email'' \<in> set (columns df) \<longrightarrow> \<not> isl (str_accessor (getitem df ''Email''))"
  from validate_returns_on_text[OF a] obtain st where
    "validate_state df = Inr st" and "frame st = df" by blast
  then show "\<exists>st. validate_state df = Inr st \<and> frame st = df \<and>
            validate_company_data df = Inr (errors st = [], errors st)"
    by (simp add: validate_company_data_def)
qed

lemma count_empty_msgs:
  assumes "col \<in> set required_columns"
  shows "count_list (concat (map (\<lambda>c. if P c then [empty_values_msg c] else []) required_columns))
           (empty_values_msg col) = (if P col then 1 else 0)"
  using assms by (auto simp: required_columns_def empty_values_msg_def)

lemma count_list_append: "count_list (xs @ ys) x = count_list xs x + count_list ys x"
  by (induction xs) auto

text \<open>
  C4, as the code has it. Emptiness is what \<^verbatim>\<open>isna()\<close> reports: for every required column
  that is present and has a missing value in some row, the validator (when the \<open>Email\<close>
  column, if present, is one the \<^verbatim>\<open>.str\<close> accessor takes, so that the format check can
  run) returns \<open>ok = False\<close> and its error list holds the message of that column exactly
  once.
\<close>

theorem validate_missing_values:
  assumes "col \<in> set required_columns" and "col \<in> set (columns df)"
      and "list_ex isna (cells (getitem df col))"
      and "''Email'' \<in> set (columns df) \<longrightarrow> \<not> isl (str_accessor (getitem df ''Email''))"
  shows "\<exists>errs. validate_company_data df = Inr (False, errs) \<and>
           count_list errs (empty_values_msg col) = 1"
proof -
  let ?P = "\<lambda>c. c \<in> set (columns df) \<and> list_ex isna (cells (getitem df c))"
  from validate_returns_on_text[OF assms(4)] obtain st extra where
    st: "validate_state df = Inr st" and
    er: "errors st = errors (check_empty (check_required \<lparr>frame = df, errors = []\<rparr>)) @ extra" and
    ex: "extra = [] \<or> extra = [''Invalid email addresses found: '' @
           str_of_nat (length (invalid_emails (cells (getitem df ''Email'')))) @ '' rows'']"
    by blast
  have c1: "count_list (concat (map (\<lambda>c. if ?P c then [empty_values_msg c] else [])
              required_columns)) (empty_values_msg col) = 1"
    using count_empty_msgs[OF assms(1), of ?P] assms(2,3) by simp
  have c2: "count_list extra (empty_values_msg col) = 0"
    using ex by (auto simp: empty_values_msg_def)
  have c3: "count_list (if missing_columns df \<noteq> []
              then [''Missing required columns: '' @ join '', '' (missing_columns df)] else [])
              (empty_values_msg col) = 0"
    by (simp add: empty_values_msg_def)
  have er2: "errors (check_empty (check_required \<lparr>frame = df, errors = []\<rparr>)) =
      (if missing_columns df \<noteq> []
       then [''Missing required columns: '' @ join '', '' (missing_columns df)] else [])
      @ concat (map (\<lambda>c. if ?P c then [empty_values_msg c] else []) required_columns)"
    by (simp add: errors_check_empty errors_check_required)
  have "count_list (errors st) (empty_values_msg col) = 0 + 1 + 0"
    by (simp only: er er2 count_list_append c1 c2 c3)
  then have "count_list (errors st) (empty_values_msg col) = 1" by simp
  moreover from this have "errors st \<noteq> []" by auto
  ultimately show ?thesis using st by (simp add: validate_company_data_def)
qed

text \<open>
  The proviso holds in particular when the \<open>Email\<close> column holds a string, and when it is
  an \<^verbatim>\<open>object\<close> column that holds no number.
\<close>

lemma str_accessor_takes:
  "list_ex is_str (cells s) \<Longrightarrow> \<not> isl (str_accessor s)"
  "\<not> list_ex is_num cs \<Longrightarrow> \<not> isl (str_accessor (ObjectSeries cs))"
proof -
  show "\<not> isl (str_accessor s)" if "list_ex is_str (cells s)"
  proof (cases s)
    case (ObjectSeries cs)
    with that show ?thesis by simp
  next
    case (NumericSeries ns)
    with that obtain n where "is_str (case n of None \<Rightarrow> NaN | Some i \<Rightarrow> Num i)"
      by (auto simp: list_ex_iff)
    then show ?thesis by (cases n) auto
  qed
  show "\<not> isl (str_accessor (ObjectSeries cs))" if "\<not> list_ex is_num cs"
    using that by simp
qed

theorem validate_missing_values_witness:
  "''Recruiter'' \<in> set required_columns
   \<and> list_ex isna (cells (getitem
        \<lparr>index = [IntLabel 0, IntLabel 1],
         data = [(''Company Name'', ObjectSeries [Str ''Acme'', Str ''Bolt'']),
                 (''Recruiter'', ObjectSeries [Str ''Jane'', NaN]),
                 (''Email'', ObjectSeries [Str ''jane@acme.com'', NaN])]\<rparr> ''Recruiter''))
   \<and> (\<exists>errs. validate_company_data
        \<lparr>index = [IntLabel 0, IntLabel 1],
         data = [(''Company Name'', ObjectSeries [Str ''Acme'', Str ''Bolt'']),
                 (''Recruiter'', ObjectSeries [Str ''Jane'', NaN]),
                 (''Email'', ObjectSeries [Str ''jane@acme.com'', NaN])]\<rparr> = Inr (False, errs)
         \<and> count_list errs (empty_values_msg ''Recruiter'') = 1)"
proof -
  let ?df = "\<lparr>index = [IntLabel 0, IntLabel 1],
         data = [(''Company Name'', ObjectSeries [Str ''Acme'', Str ''Bolt'']),
                 (''Recruiter'', ObjectSeries [Str ''Jane'', NaN]),
                 (''Email'', ObjectSeries [Str ''jane@acme.com'', NaN])]\<rparr>"
  have h1: "''Recruiter'' \<in> set required_columns" by (simp add: required_columns_def)
  have h2: "''Recruiter'' \<in> set (columns ?df)" by (simp add: columns_def)
  have h3: "list_ex isna (cells (getitem ?df ''Recruiter''))" by (simp add: getitem_def)
  have h4: "''Email'' \<in> set (columns ?df) \<longrightarrow> \<not> isl (str_accessor (getitem ?df ''Email''))"
    by (simp add: getitem_def)
  from validate_missing_values[OF h1 h2 h3 h4] h1 h3 show ?thesis by blast
qed

text \<open>
  C4 as stated fails on an empty string: the company name of the only row is the empty
  string, and the validator accepts the table without any error.
\<close>

theorem validate_empty_string_counterexample:
  "Str [] \<in> set (cells (getitem
       \<lparr>index = [IntLabel 0],
        data = [(''Company Name'', ObjectSeries [Str []]),
                (''Recruiter'', ObjectSeries [Str ''Jane'']),
                (''Email'', ObjectSeries [Str ''jane@acme.com''])]\<rparr> ''Company Name''))
   \<and> validate_company_data
       \<lparr>index = [IntLabel 0],
        data = [(''Company Name'', ObjectSeries [Str []]),
                (''Recruiter'', ObjectSeries [Str ''Jane'']),
                (''Email'', ObjectSeries [Str ''jane@acme.com''])]\<rparr> = Inr (True, [])"
  by (simp add: validate_defs pattern_defs)

text \<open>
  C8 fails in the code. On a table whose \<open>Email\<close> column is numeric the validator raises
  \<^verbatim>\<open>AttributeError\<close> where it should return its pair, and the error it had already
  collected for the missing recruiter is lost with it. The same number beside a string,
  in an \<^verbatim>\<open>object\<close> column, is counted as an invalid address and the pair is returned.
\<close>

theorem validate_numeric_email_raises:
  "validate_company_data numeric_email_frame
     = Inl (AttributeError ''Can only use .str accessor with string values!'')
   \<and> errors (check_empty (check_required \<lparr>frame = numeric_email_frame, errors = []\<rparr>))
       = [empty_values_msg ''Recruiter'']
   \<and> validate_company_data mixed_email_frame
       = Inr (False, [empty_values_msg ''Recruiter'',
                      ''Invalid email addresses found: 1 rows''])"
  by (simp add: validate_defs numeric_email_frame_def mixed_email_frame_def pattern_defs
                str_of_nat.simps digit_char_def)

section \<open>The empty campaign\<close>





section \<open>Properties of the single send\<close>

lemma send_email_returns:
  "\<exists>ok msg ev. send_email w i t s b ap an = (Inr (ok, msg), ev)"
  by (cases "send_email_try w i t s b ap an") (auto simp: send_email_def split: sum.splits)



lemmas campaign_defs =
  compose_def compose_body_def compose_subject_def substitute_body_def substitute_subject_def
  bind_exn_def row_getitem_def row_get_def row_at_def nrows_def send_email_try_def
  send_email_def get_fallback_content_def personalize_email_def ai_mode_def

lemmas run_defs =
  run_campaign_def run_campaign_state_def iterrows_def run_recipient_def process_recipient_def
  call_progress_def sleep_def error_result_def progress_bar_update_def before_last_def
  enumerate_eq_zip

lemmas sample_defs =
  sample_world_def failing_world_def override_world_def short_reply_world_def
  sample_campaign_def raising_callback_campaign_def negative_delay_campaign_def frame_defs

text \<open>
  C9. \<^verbatim>\<open>send_email\<close> always returns a pair and never raises. Without a mail service it
  returns \<open>(False, ''Gmail service not available'')\<close> and nothing reaches the transport.
  An exception while the message is built or sent becomes \<open>(False, ''Failed to send
  email: '' @ text)\<close>.
\<close>

theorem send_email_total:
  "(\<exists>ok msg. fst (send_email w i t s b ap an) = Inr (ok, msg))
   \<and> (\<not> get_service w i \<longrightarrow>
        send_email w i t s b ap an = (Inr (False, ''Gmail service not available''), []))
   \<and> (\<forall>e. get_service w i \<and> create_email_message w t s b ap an = Inl e \<longrightarrow>
        send_email w i t s b ap an = (Inr (False, ''Failed to send email: '' @ str_exn e), []))
   \<and> (\<forall>raw e. get_service w i \<and> create_email_message w t s b ap an = Inr raw \<and>
          execute_send w i raw = Inl e \<longrightarrow>
        send_email w i t s b ap an =
          (Inr (False, ''Failed to send email: '' @ str_exn e), [Transport t raw]))
   \<and> (\<forall>e. fst (send_email_try w i t s b ap an) = Inl e \<longrightarrow>
        fst (send_email w i t s b ap an) = Inr (False, ''Failed to send email: '' @ str_exn e))"
proof (intro conjI allI impI)
  show "\<exists>ok msg. fst (send_email w i t s b ap an) = Inr (ok, msg)"
    using send_email_returns[of w i t s b ap an] by auto
qed (auto simp: send_email_def send_email_try_def
          split: prod.splits sum.splits if_splits option.splits)

theorem send_email_total_witness:
  "send_email (sample_world\<lparr>get_service := (\<lambda>i. False)\<rparr>) 0 (Str ''jane@acme.com'')
      ''Hello'' ''Hi Jane'' None None = (Inr (False, ''Gmail service not available''), [])
   \<and> send_email failing_world 1 (Str ''raj@bolt.io'') ''Hello'' ''Hi Raj'' None None
       = (Inr (False, ''Failed to send email: quota exceeded''),
          [Transport (Str ''raj@bolt.io'') ''Hello|Hi Raj''])"
proof -
  let ?w = "sample_world\<lparr>get_service := (\<lambda>i. False)\<rparr>"
  have h1: "\<not> get_service ?w 0" by simp
  have h2: "get_service failing_world 1 \<and>
            create_email_message failing_world (Str ''raj@bolt.io'') ''Hello'' ''Hi Raj'' None None
              = Inr ''Hello|Hi Raj'' \<and>
            execute_send failing_world 1 ''Hello|Hi Raj'' = Inl (OtherError ''quota exceeded'')"
    by (simp add: failing_world_def sample_world_def)
  from send_email_total[of ?w 0 "Str ''jane@acme.com''" "''Hello''" "''Hi Jane''" None None] h1
  have r1: "send_email ?w 0 (Str ''jane@acme.com'') ''Hello'' ''Hi Jane'' None None
              = (Inr (False, ''Gmail service not available''), [])"
    by blast
  from send_email_total[of failing_world 1 "Str ''raj@bolt.io''" "''Hello''" "''Hi Raj''" None None] h2
  have "send_email failing_world 1 (Str ''raj@bolt.io'') ''Hello'' ''Hi Raj'' None None
          = (Inr (False, ''Failed to send email: '' @ str_exn (OtherError ''quota exceeded'')),
             [Transport (Str ''raj@bolt.io'') ''Hello|Hi Raj''])"
    by blast
  with r1 show ?thesis by simp
qed

section \<open>Properties of the campaign loop\<close>

text \<open>
  A pass only appends: what it adds to the log and to the trace does not depend on the
  state it starts from, and is what it leaves when started from the empty state.
\<close>

lemma process_recipient_appends:
  "process_recipient w c n k lbl r st =
     (fst (process_recipient w c n k lbl r empty_state),
      st\<lparr>campaign_results := campaign_results st @
             campaign_results (snd (process_recipient w c n k lbl r empty_state)),
          trace := trace st @ trace (snd (process_recipient w c n k lbl r empty_state))\<rparr>)"
  by (auto simp: process_recipient_def empty_state_def call_progress_def sleep_def Let_def
           split: option.splits sum.splits prod.splits bool.splits)

lemma run_recipient_appends:
  "run_recipient w c n p st =
     st\<lparr>campaign_results := campaign_results st @
            campaign_results (run_recipient w c n p empty_state),
         trace := trace st @ trace (run_recipient w c n p empty_state)\<rparr>"
proof -
  obtain e st' where ps: "process_recipient w c n (fst p) (fst (snd p)) (snd (snd p)) empty_state
                            = (e, st')"
    by (cases "process_recipient w c n (fst p) (fst (snd p)) (snd (snd p)) empty_state")
  show ?thesis
    unfolding run_recipient_def
    by (subst process_recipient_appends, subst (2 3) ps[unfolded empty_state_def, folded empty_state_def])
       (cases e; simp add: ps)
qed

lemma fold_run_recipient:
  "fold (run_recipient w c n) ps st =
     st\<lparr>campaign_results := campaign_results st @
            concat (map (\<lambda>p. campaign_results (run_recipient w c n p empty_state)) ps),
         trace := trace st @
            concat (map (\<lambda>p. trace (run_recipient w c n p empty_state)) ps)\<rparr>"
proof (induction ps arbitrary: st)
  case Nil
  then show ?case by simp
next
  case (Cons p ps)
  let ?R = "run_recipient w c n p st"
  note R = run_recipient_appends[of w c n p st]
  have cr: "campaign_results ?R
              = campaign_results st @ campaign_results (run_recipient w c n p empty_state)"
    using arg_cong[OF R, of campaign_results] by simp
  have tr: "trace ?R = trace st @ trace (run_recipient w c n p empty_state)"
    using arg_cong[OF R, of trace] by simp
  have mo: "cstate.more ?R = cstate.more st"
    using arg_cong[OF R, of cstate.more] by simp
  show ?case
    by (rule cstate.equality) (simp_all add: Cons.IH[of ?R] cr tr mo)
qed

lemma run_campaign_state_passes:
  "campaign_results (run_campaign_state w c df) =
     concat (map (\<lambda>p. campaign_results (run_recipient w c (nrows df) p empty_state))
                 (enumerate 0 (iterrows df)))"
  "trace (run_campaign_state w c df) =
     concat (map (\<lambda>p. trace (run_recipient w c (nrows df) p empty_state))
                 (enumerate 0 (iterrows df)))"
  unfolding run_campaign_state_def by (subst fold_run_recipient, simp)+

lemma compose_fields:
  "compose w tpl subj r = (Inr m, ev) \<Longrightarrow>
     company_name m = row_get r ''Company Name'' (Str ''Unknown'') \<and>
     recruiter_name m = row_get r ''Recruiter'' (Str ''Unknown'') \<and>
     email_address m = row_get r ''Email'' (Str ''Unknown'')"
  by (auto simp: compose_def row_getitem_def row_get_def
           split: option.splits sum.splits prod.splits)

lemma length_iterrows [simp]: "length (iterrows df) = nrows df"
  by (simp add: iterrows_def)

lemma nth_iterrows [simp]: "k < nrows df \<Longrightarrow> iterrows df ! k = (index df ! k, row_at df k)"
  by (simp add: iterrows_def)

lemma nth_enumerate_iterrows [simp]:
  "k < nrows df \<Longrightarrow> enumerate 0 (iterrows df) ! k = (k, index df ! k, row_at df k)"
  by (simp add: nth_enumerate_eq)

text \<open>
  C1 fails in the code. The callback and the pause run inside the \<^verbatim>\<open>try\<close> block after
  the entry has been appended, so an exception of either one sends the pass to the
  \<^verbatim>\<open>except\<close> clause, which appends a second entry for the same recipient: a table of one
  row with a callback that raises gives two entries, the send reported as a success and
  then as a failure, and a table of two rows with a negative delay gives three.
\<close>

theorem run_campaign_duplicate_entry:
  "nrows sample_frame = 1
   \<and> length (run_campaign sample_world raising_callback_campaign sample_frame) = 2
   \<and> email (run_campaign sample_world raising_callback_campaign sample_frame ! 0)
       = Str ''test@example.com''
   \<and> success (run_campaign sample_world raising_callback_campaign sample_frame ! 0)
   \<and> email (run_campaign sample_world raising_callback_campaign sample_frame ! 1)
       = Str ''test@example.com''
   \<and> \<not> success (run_campaign sample_world raising_callback_campaign sample_frame ! 1)
   \<and> message (run_campaign sample_world raising_callback_campaign sample_frame ! 1)
       = ''Campaign error: render failed''
   \<and> nrows two_row_frame = 2
   \<and> length (run_campaign sample_world negative_delay_campaign two_row_frame) = 3"
  by (simp add: run_defs campaign_defs sample_defs upt_rec Let_def)

text \<open>
  What the loop does keep. With a callback that returns normally (or none) and a delay
  that is not negative, every pass appends exactly one entry, which carries the three
  fields of its row and the outcome of the pass: an exception of the progress update or
  of the composition as \<open>''Campaign error: ''\<close> and its text, a failed send as the text
  \<^verbatim>\<open>send_email\<close> returned. So the log has one entry per row, in the order of the rows,
  whatever happened to the rows before.
\<close>

lemma run_recipient_one_entry:
  assumes cb: "\<forall>f r. progress_callback c = Some f \<longrightarrow> f r = None"
      and d: "0 \<le> delay_seconds c"
  shows "\<exists>res. campaign_results (run_recipient w c n (k, lbl, r) empty_state) = [res]
          \<and> records_outcome w c n k lbl r res"
proof (cases "progress_bar_update w lbl n")
  case (Some e)
  then show ?thesis
    by (simp add: run_recipient_def process_recipient_def error_result_def records_outcome_def
                  empty_state_def)
next
  case None
  note pg = None
  obtain cr ev where Pair: "compose w (email_template c) (subject_template c) r = (cr, ev)"
    by (cases "compose w (email_template c) (subject_template c) r")
  show ?thesis
  proof (cases cr)
    case (Inl e)
    with Pair pg show ?thesis
      by (simp add: run_recipient_def process_recipient_def error_result_def records_outcome_def
                    empty_state_def)
  next
    case (Inr m)
    note f = compose_fields[OF Pair[unfolded Inr]]
    obtain sr ev2 where st: "send_email_try w k (email_address m) (personalized_subject m)
                       (personalized_body m) (resume_path c) (resume_name c) = (sr, ev2)"
      by (cases "send_email_try w k (email_address m) (personalized_subject m)
                       (personalized_body m) (resume_path c) (resume_name c)")
    from pg obtain i where lbl: "lbl = IntLabel i"
      by (cases lbl) (auto simp: progress_bar_update_def)
    show ?thesis
    proof (cases "progress_callback c")
      case None
      with Pair Inr st f d pg lbl show ?thesis
        by (cases sr)
           (auto simp: run_recipient_def process_recipient_def send_email_def call_progress_def
                       sleep_def records_outcome_def error_result_def before_last_def
                       empty_state_def Let_def
                 split: prod.splits bool.splits)
    next
      case (Some g)
      with cb have "\<And>x. g x = None" by simp
      with Some Pair Inr st f d pg lbl show ?thesis
        by (cases sr)
           (auto simp: run_recipient_def process_recipient_def send_email_def call_progress_def
                       sleep_def records_outcome_def error_result_def before_last_def
                       empty_state_def Let_def
                 split: prod.splits bool.splits)
    qed
  qed
qed

lemma run_campaign_records:
  assumes "\<forall>f r. progress_callback c = Some f \<longrightarrow> f r = None"
      and "0 \<le> delay_seconds c"
  shows "length (run_campaign w c df) = nrows df"
    and "k < nrows df \<Longrightarrow>
           records_outcome w c (nrows df) k (index df ! k) (row_at df k) (run_campaign w c df ! k)"
proof -
  let ?one = "\<lambda>p. hd (campaign_results (run_recipient w c (nrows df) p empty_state))"
  have one: "campaign_results (run_recipient w c (nrows df) p empty_state) = [?one p]
             \<and> records_outcome w c (nrows df) (fst p) (fst (snd p)) (snd (snd p)) (?one p)" for p
    using run_recipient_one_entry[OF assms, of w "nrows df" "fst p" "fst (snd p)" "snd (snd p)"]
    by auto
  have "run_campaign w c df = concat (map (\<lambda>p. [?one p]) (enumerate 0 (iterrows df)))"
    unfolding run_campaign_def run_campaign_state_passes(1) using one by simp
  then have eq: "run_campaign w c df = map ?one (enumerate 0 (iterrows df))"
    by (simp add: concat_map_singleton)
  show "length (run_campaign w c df) = nrows df" by (simp add: eq)
  show "records_outcome w c (nrows df) k (index df ! k) (row_at df k) (run_campaign w c df ! k)"
    if "k < nrows df"
    using one[of "(k, index df ! k, row_at df k)"] that by (simp add: eq)
qed

section \<open>Pacing\<close>
















section \<open>Precedence of the saved preview\<close>






section \<open>Properties of the replacements\<close>

lemma replace_id: "old \<noteq> [] \<Longrightarrow> \<not> sublist old s \<Longrightarrow> replace old new s = s"
  by (induction old new s rule: replace.induct) (auto simp: sublist_Cons_right)

lemma flat_bracket_free: "bracket_free u \<Longrightarrow> flat_brackets b (u @ s) = flat_brackets b s"
  by (induction u) (auto simp: bracket_free_def)

lemma flat_token: "is_token t \<Longrightarrow> flat_brackets b (t @ s) = (\<not> b \<and> flat_brackets False s)"
  by (auto simp: is_token_def flat_bracket_free)

lemma sublist_skip_bracket_free:
  assumes "bracket_free new" and "is_token t" and "sublist t (new @ R)"
  shows "sublist t R"
proof -
  from assms(2) obtain w where t: "t = CHR ''['' # w @ [CHR '']'']" by (auto simp: is_token_def)
  from assms(3) consider "sublist t new" | "sublist t R"
    | xs1 xs2 where "t = xs1 @ xs2" "suffix xs1 new" "prefix xs2 R"
    unfolding sublist_append by blast
  then show ?thesis
  proof cases
    case 1
    then have "set t \<subseteq> set new" by (rule set_mono_sublist)
    with t assms(1) show ?thesis by (auto simp: bracket_free_def)
  next
    case 2
    then show ?thesis .
  next
    case 3
    show ?thesis
    proof (cases xs1)
      case Nil
      with 3 show ?thesis by auto
    next
      case (Cons a as)
      with 3(1) t have "a = CHR ''[''" by simp
      moreover from 3(2) Cons have "a \<in> set new" by (auto simp: suffix_def)
      ultimately show ?thesis using assms(1) by (simp add: bracket_free_def)
    qed
  qed
qed

lemma inside_prefix:
  assumes "hd t = CHR ''[''" and "t \<noteq> []"
  shows "flat_brackets True cs \<Longrightarrow> bracket_free w \<Longrightarrow>
         prefix (w @ [CHR '']'']) (replace t new cs) \<Longrightarrow> prefix (w @ [CHR '']'']) cs"
proof (induction cs arbitrary: w)
  case Nil
  then show ?case using assms by simp
next
  case (Cons d ds)
  from Cons.prems(1) have d: "d \<noteq> CHR ''[''" by (auto split: if_splits)
  with assms have np: "\<not> prefix t (d # ds)" by (cases t) auto
  then have r: "replace t new (d # ds) = d # replace t new ds" using assms by simp
  show ?case
  proof (cases w)
    case Nil
    with Cons.prems(3) r show ?thesis by simp
  next
    case (Cons x w')
    with Cons.prems(3) r have x: "x = d" and p: "prefix (w' @ [CHR '']'']) (replace t new ds)"
      by simp_all
    from Cons Cons.prems(2) x have bf: "bracket_free w'" and dd: "d \<noteq> CHR '']''"
      by (auto simp: bracket_free_def)
    from Cons.prems(1) d dd have "flat_brackets True ds" by simp
    from Cons.IH[OF this bf p] show ?thesis using Cons x by simp
  qed
qed

lemma replace_no_new_token:
  assumes t': "is_token t'"
  shows "is_token t \<Longrightarrow> bracket_free new \<Longrightarrow> flat_brackets b s \<Longrightarrow>
         sublist t' (replace t new s) \<Longrightarrow> sublist t' s \<and> t' \<noteq> t"
proof (induction t new s arbitrary: b rule: replace.induct)
  case (1 old new)
  then show ?case using t' by (auto simp: is_token_def split: if_splits)
next
  case (2 old new c cs)
  note tok = "2.prems"(1) and bf = "2.prems"(2) and fl = "2.prems"(3) and sub = "2.prems"(4)
  from tok have ne: "old \<noteq> []" and hd: "hd old = CHR ''[''" by (auto simp: is_token_def)
  from t' obtain w' where tw: "t' = CHR ''['' # w' @ [CHR '']'']" and bw: "bracket_free w'"
    by (auto simp: is_token_def)
  show ?case
  proof (cases "prefix old (c # cs)")
    case True
    then obtain rest where rest: "c # cs = old @ rest" by (auto simp: prefix_def)
    then have dr: "drop (length old) (c # cs) = rest" by simp
    from fl rest flat_token[OF tok, of b rest] have fr: "flat_brackets False rest" by simp
    from sub True ne have "sublist t' (new @ replace old new (drop (length old) (c # cs)))"
      by simp
    then have "sublist t' (replace old new (drop (length old) (c # cs)))"
      using sublist_skip_bracket_free[OF bf t'] by blast
    from "2.IH"(2)[OF ne True tok bf _ this, of False] fr dr
    have "sublist t' rest \<and> t' \<noteq> old" by simp
    moreover have "sublist rest (c # cs)" unfolding rest by simp
    ultimately show ?thesis by (meson sublist_order.order_trans)
  next
    case False
    with sub ne have "sublist t' (c # replace old new cs)" by simp
    then consider "prefix t' (c # replace old new cs)" | "sublist t' (replace old new cs)"
      by (auto simp: sublist_Cons_right)
    then show ?thesis
    proof cases
      case 1
      with tw have c: "c = CHR ''[''" and p: "prefix (w' @ [CHR '']'']) (replace old new cs)"
        by simp_all
      from fl c have "flat_brackets True cs" by simp
      from inside_prefix[OF hd ne this bw p] have "prefix t' (c # cs)" using tw c by simp
      with False show ?thesis by auto
    next
      case 2
      from fl obtain b' where "flat_brackets b' cs" by (auto split: if_splits)
      from "2.IH"(3)[OF ne False tok bf this 2] show ?thesis
        by (auto simp: sublist_Cons_right)
    qed
  qed
qed

lemma replace_keeps_flat:
  "is_token t \<Longrightarrow> bracket_free new \<Longrightarrow> flat_brackets b s \<Longrightarrow> flat_brackets b (replace t new s)"
proof (induction t new s arbitrary: b rule: replace.induct)
  case (1 old new)
  then show ?case by (auto simp: is_token_def)
next
  case (2 old new c cs)
  note tok = "2.prems"(1) and bf = "2.prems"(2) and fl = "2.prems"(3)
  from tok have ne: "old \<noteq> []" by (auto simp: is_token_def)
  show ?case
  proof (cases "prefix old (c # cs)")
    case True
    then obtain rest where rest: "c # cs = old @ rest" by (auto simp: prefix_def)
    then have dr: "drop (length old) (c # cs) = rest" by simp
    from fl rest flat_token[OF tok, of b rest] have fr: "flat_brackets False rest" and b: "\<not> b"
      by simp_all
    from "2.IH"(2)[OF ne True tok bf, of False] fr dr
    have "flat_brackets False (replace old new rest)" by simp
    then show ?thesis using True ne dr b by (simp add: flat_bracket_free[OF bf])
  next
    case False
    then have r: "replace old new (c # cs) = c # replace old new cs" using ne by simp
    show ?thesis unfolding r
      using fl "2.IH"(3)[OF ne False tok bf] by (auto split: if_splits)
  qed
qed

lemma replace_removes_token:
  assumes "is_token t" and "bracket_free new" and "flat_brackets b s"
  shows "\<not> sublist t (replace t new s)"
  using replace_no_new_token[OF assms(1) assms(1) assms(2) assms(3)] by blast

lemma replace_keeps_token_free:
  assumes "is_token t" and "is_token t'" and "bracket_free new" and "flat_brackets b s"
      and "\<not> sublist t' s"
  shows "\<not> sublist t' (replace t new s)"
  using replace_no_new_token[OF assms(2) assms(1) assms(3) assms(4)] assms(5) by blast

lemma is_token_tokens:
  "is_token ''[Company Name]''" "is_token ''[Recruiter Name]''"
  "is_token ''[COMPANY]''" "is_token ''[RECRUITER]''"
  by (auto simp: is_token_def bracket_free_def
           intro: exI[of _ "''Company Name''"] exI[of _ "''Recruiter Name''"]
                  exI[of _ "''COMPANY''"] exI[of _ "''RECRUITER''"])

lemma four_replacements_token_free:
  assumes f: "flat_brackets False text" and cn: "bracket_free cn" and rn: "bracket_free rn"
  shows "\<forall>t\<in>set tokens. \<not> sublist t
           (replace ''[RECRUITER]'' rn (replace ''[COMPANY]'' cn
             (replace ''[Recruiter Name]'' rn (replace ''[Company Name]'' cn text))))"
proof -
  let ?s1 = "replace ''[Company Name]'' cn text"
  let ?s2 = "replace ''[Recruiter Name]'' rn ?s1"
  let ?s3 = "replace ''[COMPANY]'' cn ?s2"
  let ?s4 = "replace ''[RECRUITER]'' rn ?s3"
  note tk = is_token_tokens
  have f1: "flat_brackets False ?s1" by (rule replace_keeps_flat[OF tk(1) cn f])
  have f2: "flat_brackets False ?s2" by (rule replace_keeps_flat[OF tk(2) rn f1])
  have f3: "flat_brackets False ?s3" by (rule replace_keeps_flat[OF tk(3) cn f2])
  have a1: "\<not> sublist ''[Company Name]'' ?s1" by (rule replace_removes_token[OF tk(1) cn f])
  have a2: "\<not> sublist ''[Company Name]'' ?s2"
    by (rule replace_keeps_token_free[OF tk(2) tk(1) rn f1 a1])
  have a3: "\<not> sublist ''[Company Name]'' ?s3"
    by (rule replace_keeps_token_free[OF tk(3) tk(1) cn f2 a2])
  have a4: "\<not> sublist ''[Company Name]'' ?s4"
    by (rule replace_keeps_token_free[OF tk(4) tk(1) rn f3 a3])
  have b2: "\<not> sublist ''[Recruiter Name]'' ?s2" by (rule replace_removes_token[OF tk(2) rn f1])
  have b3: "\<not> sublist ''[Recruiter Name]'' ?s3"
    by (rule replace_keeps_token_free[OF tk(3) tk(2) cn f2 b2])
  have b4: "\<not> sublist ''[Recruiter Name]'' ?s4"
    by (rule replace_keeps_token_free[OF tk(4) tk(2) rn f3 b3])
  have c3: "\<not> sublist ''[COMPANY]'' ?s3" by (rule replace_removes_token[OF tk(3) cn f2])
  have c4: "\<not> sublist ''[COMPANY]'' ?s4"
    by (rule replace_keeps_token_free[OF tk(4) tk(3) rn f3 c3])
  have d4: "\<not> sublist ''[RECRUITER]'' ?s4" by (rule replace_removes_token[OF tk(4) rn f3])
  from a4 b4 c4 d4 show ?thesis by (simp add: tokens_def)
qed

lemma two_replacements_token_free:
  assumes f: "flat_brackets False text" and cn: "bracket_free cn" and rn: "bracket_free rn"
  shows "\<not> sublist ''[Company Name]''
           (replace ''[Recruiter Name]'' rn (replace ''[Company Name]'' cn text))"
    and "\<not> sublist ''[Recruiter Name]''
           (replace ''[Recruiter Name]'' rn (replace ''[Company Name]'' cn text))"
proof -
  let ?s1 = "replace ''[Company Name]'' cn text"
  note tk = is_token_tokens
  have f1: "flat_brackets False ?s1" by (rule replace_keeps_flat[OF tk(1) cn f])
  have a1: "\<not> sublist ''[Company Name]'' ?s1" by (rule replace_removes_token[OF tk(1) cn f])
  show "\<not> sublist ''[Company Name]'' (replace ''[Recruiter Name]'' rn ?s1)"
    by (rule replace_keeps_token_free[OF tk(2) tk(1) rn f1 a1])
  show "\<not> sublist ''[Recruiter Name]'' (replace ''[Recruiter Name]'' rn ?s1)"
    by (rule replace_removes_token[OF tk(2) rn f1])
qed

lemma substitute_body_str:
  "substitute_body text (Str cn) (Str rn) =
     Inr (replace ''[RECRUITER]'' rn (replace ''[COMPANY]'' cn
           (replace ''[Recruiter Name]'' rn (replace ''[Company Name]'' cn text))))"
  by (simp add: substitute_body_def bind_exn_def)

lemma substitute_subject_str:
  "substitute_subject text (Str cn) (Str rn) =
     Inr (replace ''[Recruiter Name]'' rn (replace ''[Company Name]'' cn text))"
  by (simp add: substitute_subject_def bind_exn_def)

lemma open_in_token:
  assumes "is_token t" and "t = ys @ CHR ''['' # zs"
  shows "ys = []"
proof (cases ys)
  case Nil
  then show ?thesis .
next
  case (Cons y ys')
  from assms(1) obtain w where t: "t = CHR ''['' # w @ [CHR '']'']" and bf: "bracket_free w"
    by (auto simp: is_token_def)
  with assms(2) Cons have "w @ [CHR '']''] = ys' @ CHR ''['' # zs" by simp
  then have "CHR ''['' \<in> set (w @ [CHR '']''])" by simp
  with bf show ?thesis by (simp add: bracket_free_def)
qed

lemma token_prefix_eq:
  assumes "is_token t" and "is_token t'" and "prefix t' (t @ rest)"
  shows "t' = t"
proof -
  from assms(1) obtain w where t: "t = CHR ''['' # w @ [CHR '']'']" and bf: "bracket_free w"
    by (auto simp: is_token_def)
  from assms(2) obtain w' where t': "t' = CHR ''['' # w' @ [CHR '']'']" and bf': "bracket_free w'"
    by (auto simp: is_token_def)
  from assms(3) obtain zs where "t @ rest = t' @ zs" by (auto simp: prefix_def)
  with t t' have e: "w @ CHR '']'' # rest = w' @ CHR '']'' # zs" by simp
  have "takeWhile (\<lambda>c. c \<noteq> CHR '']'') (w @ CHR '']'' # rest) = w"
    using bf by (auto simp: takeWhile_tail bracket_free_def)
  moreover have "takeWhile (\<lambda>c. c \<noteq> CHR '']'') (w' @ CHR '']'' # zs) = w'"
    using bf' by (auto simp: takeWhile_tail bracket_free_def)
  ultimately have "w = w'" using e by simp
  with t t' show ?thesis by simp
qed

lemma replace_skip_no_open:
  assumes "t \<noteq> []" and "hd t = CHR ''[''"
  shows "CHR ''['' \<notin> set u \<Longrightarrow> replace t new (u @ s) = u @ replace t new s"
proof (induction u)
  case Nil
  then show ?case by simp
next
  case (Cons d u)
  then have d: "d \<noteq> CHR ''[''" by auto
  with assms have "\<not> prefix t (d # u @ s)" by (cases t) auto
  with assms(1) Cons show ?case by simp
qed

lemma replace_keeps_other_token:
  assumes t': "is_token t'"
  shows "is_token t \<Longrightarrow> t' \<noteq> t \<Longrightarrow> sublist t' s \<Longrightarrow> sublist t' (replace t new s)"
proof (induction t new s rule: replace.induct)
  case (1 old new)
  then show ?case using t' by (auto simp: is_token_def)
next
  case (2 old new c cs)
  note tok = "2.prems"(1) and neq = "2.prems"(2) and sub = "2.prems"(3)
  from tok have ne: "old \<noteq> []" and hd: "hd old = CHR ''[''" by (auto simp: is_token_def)
  from t' obtain w' where tw: "t' = CHR ''['' # w' @ [CHR '']'']" and bw: "bracket_free w'"
    by (auto simp: is_token_def)
  show ?case
  proof (cases "prefix old (c # cs)")
    case True
    then obtain rest where rest: "c # cs = old @ rest" by (auto simp: prefix_def)
    then have dr: "drop (length old) (c # cs) = rest" by simp
    from sub obtain as bs where ab: "c # cs = as @ t' @ bs" by (auto simp: sublist_def)
    with rest have "old @ rest = as @ (t' @ bs)" by simp
    then obtain us where "(old = as @ us \<and> us @ rest = t' @ bs) \<or>
                          (old @ us = as \<and> rest = us @ t' @ bs)"
      unfolding append_eq_append_conv2 by blast
    then have sr: "sublist t' rest"
    proof
      assume a: "old = as @ us \<and> us @ rest = t' @ bs"
      show ?thesis
      proof (cases us)
        case Nil
        with a have "rest = t' @ bs" by simp
        then show ?thesis by (metis sublist_appendI append_Nil)
      next
        case (Cons u us')
        with a tw have "u = CHR ''[''" by simp
        with a Cons have "old = as @ CHR ''['' # us'" by simp
        from open_in_token[OF tok this] have "as = []" .
        with a have "old @ rest = t' @ bs" by simp
        then have "prefix t' (old @ rest)" by (metis prefixI)
        from token_prefix_eq[OF tok t' this] neq show ?thesis by simp
      qed
    next
      assume "old @ us = as \<and> rest = us @ t' @ bs"
      then show ?thesis by (auto simp: sublist_def)
    qed
    from "2.IH"(2)[OF ne True tok neq] sr dr
    have "sublist t' (replace old new rest)" by simp
    moreover have "sublist (replace old new rest) (new @ replace old new rest)" by simp
    ultimately have "sublist t' (new @ replace old new rest)"
      by (meson sublist_order.order_trans)
    with True ne dr show ?thesis by simp
  next
    case False
    then have r: "replace old new (c # cs) = c # replace old new cs" using ne by simp
    from sub consider "prefix t' (c # cs)" | "sublist t' cs"
      by (auto simp: sublist_Cons_right)
    then show ?thesis
    proof cases
      case 1
      then obtain zs where z: "c # cs = t' @ zs" by (auto simp: prefix_def)
      with tw have c: "c = CHR ''[''" and cs: "cs = (w' @ [CHR '']'']) @ zs" by simp_all
      have "CHR ''['' \<notin> set (w' @ [CHR '']''])" using bw by (simp add: bracket_free_def)
      from replace_skip_no_open[OF ne hd this, of new zs]
      have "replace old new cs = (w' @ [CHR '']'']) @ replace old new zs" by (simp add: cs)
      with r c tw have "replace old new (c # cs) = t' @ replace old new zs" by simp
      then show ?thesis by (metis sublist_appendI append_Nil)
    next
      case 2
      from "2.IH"(3)[OF ne False tok neq 2] show ?thesis
        unfolding r by (simp add: sublist_Cons_right)
    qed
  qed
qed

lemma two_replacements_keep_legacy:
  "sublist ''[COMPANY]'' text \<Longrightarrow>
     sublist ''[COMPANY]'' (replace ''[Recruiter Name]'' rn (replace ''[Company Name]'' cn text))"
  "sublist ''[RECRUITER]'' text \<Longrightarrow>
     sublist ''[RECRUITER]'' (replace ''[Recruiter Name]'' rn (replace ''[Company Name]'' cn text))"
proof -
  note tk = is_token_tokens
  show "sublist ''[COMPANY]'' (replace ''[Recruiter Name]'' rn (replace ''[Company Name]'' cn text))"
    if "sublist ''[COMPANY]'' text"
    by (rule replace_keeps_other_token[OF tk(3) tk(2)], simp,
        rule replace_keeps_other_token[OF tk(3) tk(1)], simp, rule that)
  show "sublist ''[RECRUITER]'' (replace ''[Recruiter Name]'' rn (replace ''[Company Name]'' cn text))"
    if "sublist ''[RECRUITER]'' text"
    by (rule replace_keeps_other_token[OF tk(4) tk(2)], simp,
        rule replace_keeps_other_token[OF tk(4) tk(1)], simp, rule that)
qed

text \<open>
  C2, as the code has it. The body paths (manual template, saved preview) apply the four
  replacements to the text, in the order of the source: \<open>[Company Name]\<close> by the
  company name, \<open>[Recruiter Name]\<close> by the recruiter name, \<open>[COMPANY]\<close> by the company
  name, \<open>[RECRUITER]\<close> by the recruiter name. The subject paths (saved preview subject,
  else the subject template) apply only the first two. When the text the replacements
  start from is flat and the two names hold no bracket, the result of the four holds none
  of the four tokens and the result of the two holds neither \<open>[Company Name]\<close> nor
  \<open>[Recruiter Name]\<close>. The two replacements of the subject leave every \<open>[COMPANY]\<close> and
  \<open>[RECRUITER]\<close> of the text in place, whatever the text and the names.
\<close>

theorem substitution_removes_tokens:
  "(\<forall>m. personalization_mode w = Some m \<and> m \<noteq> ai_mode \<longrightarrow>
      compose_body w tpl (Str cn) (Str rn) r =
        (Inr (replace ''[RECRUITER]'' rn (replace ''[COMPANY]'' cn
               (replace ''[Recruiter Name]'' rn (replace ''[Company Name]'' cn tpl)))), []))
   \<and> (\<forall>edited. (personalization_mode w = None \<or> personalization_mode w = Some ai_mode) \<and>
        preview_email_content w = Some edited \<longrightarrow>
        compose_body w tpl (Str cn) (Str rn) r =
          (Inr (replace ''[RECRUITER]'' rn (replace ''[COMPANY]'' cn
                 (replace ''[Recruiter Name]'' rn (replace ''[Company Name]'' cn edited)))), []))
   \<and> compose_subject w subj (Str cn) (Str rn) =
       Inr (replace ''[Recruiter Name]'' rn (replace ''[Company Name]'' cn
             (case preview_email_subject w of Some edited \<Rightarrow> edited | None \<Rightarrow> subj)))
   \<and> (\<forall>text. bracket_free cn \<and> bracket_free rn \<and> flat_brackets False text \<longrightarrow>
         (\<forall>t\<in>set tokens. \<not> sublist t
            (replace ''[RECRUITER]'' rn (replace ''[COMPANY]'' cn
              (replace ''[Recruiter Name]'' rn (replace ''[Company Name]'' cn text)))))
         \<and> \<not> sublist ''[Company Name]''
              (replace ''[Recruiter Name]'' rn (replace ''[Company Name]'' cn text))
         \<and> \<not> sublist ''[Recruiter Name]''
              (replace ''[Recruiter Name]'' rn (replace ''[Company Name]'' cn text)))
   \<and> (\<forall>text. (sublist ''[COMPANY]'' text \<longrightarrow>
                sublist ''[COMPANY]''
                  (replace ''[Recruiter Name]'' rn (replace ''[Company Name]'' cn text)))
             \<and> (sublist ''[RECRUITER]'' text \<longrightarrow>
                sublist ''[RECRUITER]''
                  (replace ''[Recruiter Name]'' rn (replace ''[Company Name]'' cn text))))"
proof -
  have 1: "compose_body w tpl (Str cn) (Str rn) r =
        (Inr (replace ''[RECRUITER]'' rn (replace ''[COMPANY]'' cn
               (replace ''[Recruiter Name]'' rn (replace ''[Company Name]'' cn tpl)))), [])"
    if "personalization_mode w = Some m \<and> m \<noteq> ai_mode" for m
    using that by (simp add: compose_body_def substitute_body_str)
  have 2: "compose_body w tpl (Str cn) (Str rn) r =
          (Inr (replace ''[RECRUITER]'' rn (replace ''[COMPANY]'' cn
                 (replace ''[Recruiter Name]'' rn (replace ''[Company Name]'' cn edited)))), [])"
    if "(personalization_mode w = None \<or> personalization_mode w = Some ai_mode) \<and>
        preview_email_content w = Some edited" for edited
    using that by (auto simp: compose_body_def substitute_body_str)
  have 3: "compose_subject w subj (Str cn) (Str rn) =
       Inr (replace ''[Recruiter Name]'' rn (replace ''[Company Name]'' cn
             (case preview_email_subject w of Some edited \<Rightarrow> edited | None \<Rightarrow> subj)))"
    by (simp add: compose_subject_def substitute_subject_str split: option.splits)
  have 4: "(\<forall>t\<in>set tokens. \<not> sublist t
            (replace ''[RECRUITER]'' rn (replace ''[COMPANY]'' cn
              (replace ''[Recruiter Name]'' rn (replace ''[Company Name]'' cn x)))))
         \<and> \<not> sublist ''[Company Name]''
              (replace ''[Recruiter Name]'' rn (replace ''[Company Name]'' cn x))
         \<and> \<not> sublist ''[Recruiter Name]''
              (replace ''[Recruiter Name]'' rn (replace ''[Company Name]'' cn x))"
    if "bracket_free cn \<and> bracket_free rn \<and> flat_brackets False x" for x
    using that four_replacements_token_free[of x cn rn]
          two_replacements_token_free[of x cn rn] by blast
  have 5: "(sublist ''[COMPANY]'' x \<longrightarrow>
                sublist ''[COMPANY]''
                  (replace ''[Recruiter Name]'' rn (replace ''[Company Name]'' cn x)))
             \<and> (sublist ''[RECRUITER]'' x \<longrightarrow>
                sublist ''[RECRUITER]''
                  (replace ''[Recruiter Name]'' rn (replace ''[Company Name]'' cn x)))" for x
    using two_replacements_keep_legacy[of x rn cn] by blast
  from 1 2 3 4 5 show ?thesis by blast
qed

text \<open>
  A manual template and a saved preview, each with the two names filled in and no token
  left; a subject template with \<open>[Company Name]\<close> filled in; a subject template whose
  \<open>[COMPANY]\<close> stays.
\<close>

theorem substitution_removes_tokens_witness:
  "compose_body sample_world ''Hi [Recruiter Name] at [Company Name]'' (Str ''Acme'')
      (Str ''Jane'') Map.empty = (Inr ''Hi Jane at Acme'', [])
   \<and> list_all (\<lambda>t. \<not> sublist t ''Hi Jane at Acme'') tokens
   \<and> compose_body override_world ''Hi [Recruiter Name] at [Company Name]'' (Str ''Acme'')
      (Str ''Jane'') Map.empty = (Inr ''Hello Jane of Acme'', [])
   \<and> list_all (\<lambda>t. \<not> sublist t ''Hello Jane of Acme'') tokens
   \<and> compose_subject sample_world ''Interest in Opportunities at [Company Name]''
      (Str ''Acme'') (Str ''Jane'') = Inr ''Interest in Opportunities at Acme''
   \<and> \<not> sublist ''[Company Name]'' ''Interest in Opportunities at Acme''
   \<and> sublist ''[COMPANY]'' (replace ''[Recruiter Name]'' ''Jane''
        (replace ''[Company Name]'' ''Acme'' ''[COMPANY] and [Company Name]''))"
proof -
  have h: "bracket_free ''Acme'' \<and> bracket_free ''Jane'' \<and>
           flat_brackets False ''Hi [Recruiter Name] at [Company Name]''"
    by (simp add: bracket_free_def)
  have h': "bracket_free ''Acme'' \<and> bracket_free ''Jane'' \<and>
           flat_brackets False ''Hello [Recruiter Name] of [COMPANY]''"
    by (simp add: bracket_free_def)
  have h'': "bracket_free ''Acme'' \<and> bracket_free ''Jane'' \<and>
           flat_brackets False ''Interest in Opportunities at [Company Name]''"
    by (simp add: bracket_free_def)
  have m: "personalization_mode sample_world = Some ''Manual Template'' \<and>
           ''Manual Template'' \<noteq> ai_mode"
    by (simp add: sample_world_def ai_mode_def)
  have o: "(personalization_mode override_world = None \<or>
            personalization_mode override_world = Some ai_mode) \<and>
           preview_email_content override_world = Some ''Hello [Recruiter Name] of [COMPANY]''"
    by (simp add: override_world_def)
  have ps: "preview_email_subject sample_world = None" by (simp add: sample_world_def)
  have v1: "replace ''[RECRUITER]'' ''Jane'' (replace ''[COMPANY]'' ''Acme''
              (replace ''[Recruiter Name]'' ''Jane'' (replace ''[Company Name]'' ''Acme''
                 ''Hi [Recruiter Name] at [Company Name]''))) = ''Hi Jane at Acme''"
    by simp
  have v2: "replace ''[RECRUITER]'' ''Jane'' (replace ''[COMPANY]'' ''Acme''
              (replace ''[Recruiter Name]'' ''Jane'' (replace ''[Company Name]'' ''Acme''
                 ''Hello [Recruiter Name] of [COMPANY]''))) = ''Hello Jane of Acme''"
    by simp
  have v3: "replace ''[Recruiter Name]'' ''Jane'' (replace ''[Company Name]'' ''Acme''
              ''Interest in Opportunities at [Company Name]'')
              = ''Interest in Opportunities at Acme''"
    by simp
  have sl: "sublist ''[COMPANY]'' ''[COMPANY] and [Company Name]''"
    by simp
  note T1 = substitution_removes_tokens[where w=sample_world and cn="''Acme''" and rn="''Jane''"
              and tpl="''Hi [Recruiter Name] at [Company Name]''" and r=Map.empty
              and subj="''Interest in Opportunities at [Company Name]''"]
  note T2 = substitution_removes_tokens[where w=override_world and cn="''Acme''" and rn="''Jane''"
              and tpl="''Hi [Recruiter Name] at [Company Name]''" and r=Map.empty
              and subj="''Interest in Opportunities at [Company Name]''"]
  from T1 m have "compose_body sample_world ''Hi [Recruiter Name] at [Company Name]''
       (Str ''Acme'') (Str ''Jane'') Map.empty =
        (Inr (replace ''[RECRUITER]'' ''Jane'' (replace ''[COMPANY]'' ''Acme''
               (replace ''[Recruiter Name]'' ''Jane'' (replace ''[Company Name]'' ''Acme''
                  ''Hi [Recruiter Name] at [Company Name]'')))), [])"
    by blast
  then have e1: "compose_body sample_world ''Hi [Recruiter Name] at [Company Name]''
       (Str ''Acme'') (Str ''Jane'') Map.empty = (Inr ''Hi Jane at Acme'', [])"
    by (simp only: v1)
  from T1 h have "\<forall>t\<in>set tokens. \<not> sublist t
            (replace ''[RECRUITER]'' ''Jane'' (replace ''[COMPANY]'' ''Acme''
              (replace ''[Recruiter Name]'' ''Jane'' (replace ''[Company Name]'' ''Acme''
                 ''Hi [Recruiter Name] at [Company Name]''))))"
    by blast
  then have r1: "list_all (\<lambda>t. \<not> sublist t ''Hi Jane at Acme'') tokens"
    by (simp only: v1 list_all_iff)
  from T2 o have "compose_body override_world ''Hi [Recruiter Name] at [Company Name]''
       (Str ''Acme'') (Str ''Jane'') Map.empty =
        (Inr (replace ''[RECRUITER]'' ''Jane'' (replace ''[COMPANY]'' ''Acme''
               (replace ''[Recruiter Name]'' ''Jane'' (replace ''[Company Name]'' ''Acme''
                  ''Hello [Recruiter Name] of [COMPANY]'')))), [])"
    by blast
  then have e2: "compose_body override_world ''Hi [Recruiter Name] at [Company Name]''
       (Str ''Acme'') (Str ''Jane'') Map.empty = (Inr ''Hello Jane of Acme'', [])"
    by (simp only: v2)
  from T2 h' have "\<forall>t\<in>set tokens. \<not> sublist t
            (replace ''[RECRUITER]'' ''Jane'' (replace ''[COMPANY]'' ''Acme''
              (replace ''[Recruiter Name]'' ''Jane'' (replace ''[Company Name]'' ''Acme''
                 ''Hello [Recruiter Name] of [COMPANY]''))))"
    by blast
  then have r2: "list_all (\<lambda>t. \<not> sublist t ''Hello Jane of Acme'') tokens"
    by (simp only: v2 list_all_iff)
  from T1 have "compose_subject sample_world ''Interest in Opportunities at [Company Name]''
       (Str ''Acme'') (Str ''Jane'') =
       Inr (replace ''[Recruiter Name]'' ''Jane'' (replace ''[Company Name]'' ''Acme''
             (case preview_email_subject sample_world of Some edited \<Rightarrow> edited
              | None \<Rightarrow> ''Interest in Opportunities at [Company Name]'')))"
    by blast
  then have e3: "compose_subject sample_world ''Interest in Opportunities at [Company Name]''
       (Str ''Acme'') (Str ''Jane'') = Inr ''Interest in Opportunities at Acme''"
    unfolding ps option.case by (simp only: v3)
  from T1 h'' have "\<not> sublist ''[Company Name]''
              (replace ''[Recruiter Name]'' ''Jane'' (replace ''[Company Name]'' ''Acme''
                 ''Interest in Opportunities at [Company Name]''))"
    by blast
  then have r3: "\<not> sublist ''[Company Name]'' ''Interest in Opportunities at Acme''"
    unfolding v3 .
  from T1 sl have r4: "sublist ''[COMPANY]'' (replace ''[Recruiter Name]'' ''Jane''
        (replace ''[Company Name]'' ''Acme'' ''[COMPANY] and [Company Name]''))"
    by blast
  from e1 r1 e2 r2 e3 r3 r4 show ?thesis by blast
qed

text \<open>
  C2 as stated fails on the subject: the subject paths do not replace \<open>[COMPANY]\<close>, so a
  subject template that uses it is sent with the token in place.
\<close>

theorem subject_keeps_legacy_token_counterexample:
  "compose_subject sample_world ''[COMPANY] is hiring'' (Str ''Acme'') (Str ''Jane'')
     = Inr ''[COMPANY] is hiring''
   \<and> sublist ''[COMPANY]'' ''[COMPANY] is hiring''"
  by (simp add: campaign_defs sample_defs)

section \<open>Fallback of the generated strategy\<close>

text \<open>
  C6, as the code has it. When the backend is not configured, raises, returns no
  response or returns an empty text, the body is the fallback: the template with the four
  replacements, in which every run of three line breaks found from the left is then cut
  to two. The call returns it (nothing is raised) for a recipient whose names are
  strings. It is the templated body exactly when that body has no three line breaks in a
  row. A text that is not empty, however short, is used as it is, stripped.
\<close>

theorem generation_fallback:
  "((\<not> model_configured w \<or>
       generate_content w (Str cn) (Str rn) tpl res r = GenNone \<or>
       generate_content w (Str cn) (Str rn) tpl res r = GenText [] \<or>
       (\<exists>e. generate_content w (Str cn) (Str rn) tpl res r = GenRaises e)) \<longrightarrow>
      personalize_email w (Str cn) (Str rn) tpl res r =
        Inr (replace newline3 newline2
              (replace ''[RECRUITER]'' rn (replace ''[COMPANY]'' cn
                (replace ''[Recruiter Name]'' rn (replace ''[Company Name]'' cn tpl)))))
      \<and> (\<not> sublist newline3
              (replace ''[RECRUITER]'' rn (replace ''[COMPANY]'' cn
                (replace ''[Recruiter Name]'' rn (replace ''[Company Name]'' cn tpl)))) \<longrightarrow>
           personalize_email w (Str cn) (Str rn) tpl res r
             = substitute_body tpl (Str cn) (Str rn)))
   \<and> (\<forall>t. model_configured w \<and> t \<noteq> [] \<and>
          generate_content w (Str cn) (Str rn) tpl res r = GenText t \<longrightarrow>
        personalize_email w (Str cn) (Str rn) tpl res r = Inr (strip t))"
proof (intro conjI allI impI)
  let ?four = "replace ''[RECRUITER]'' rn (replace ''[COMPANY]'' cn
                (replace ''[Recruiter Name]'' rn (replace ''[Company Name]'' cn tpl)))"
  assume a: "\<not> model_configured w \<or>
       generate_content w (Str cn) (Str rn) tpl res r = GenNone \<or>
       generate_content w (Str cn) (Str rn) tpl res r = GenText [] \<or>
       (\<exists>e. generate_content w (Str cn) (Str rn) tpl res r = GenRaises e)"
  have fb: "get_fallback_content (Str cn) (Str rn) tpl = Inr (replace newline3 newline2 ?four)"
    by (simp add: get_fallback_content_def substitute_body_str bind_exn_def)
  from a show p: "personalize_email w (Str cn) (Str rn) tpl res r
                    = Inr (replace newline3 newline2 ?four)"
    by (auto simp: personalize_email_def fb)
  assume "\<not> sublist newline3 ?four"
  then have "replace newline3 newline2 ?four = ?four"
    by (intro replace_id) (simp_all add: newline3_def)
  with p show "personalize_email w (Str cn) (Str rn) tpl res r
                 = substitute_body tpl (Str cn) (Str rn)"
    by (simp add: substitute_body_str)
next
  fix t
  assume "model_configured w \<and> t \<noteq> [] \<and>
          generate_content w (Str cn) (Str rn) tpl res r = GenText t"
  then show "personalize_email w (Str cn) (Str rn) tpl res r = Inr (strip t)"
    by (simp add: personalize_email_def)
qed

theorem generation_fallback_witness:
  "personalize_email sample_world (Str ''Acme'') (Str ''Jane'')
      ''Hi [Recruiter Name] at [Company Name]'' [] Map.empty = Inr ''Hi Jane at Acme''
   \<and> personalize_email sample_world (Str ''Acme'') (Str ''Jane'')
      ''Hi [Recruiter Name] at [Company Name]'' [] Map.empty
       = substitute_body ''Hi [Recruiter Name] at [Company Name]'' (Str ''Acme'') (Str ''Jane'')
   \<and> personalize_email override_world (Str ''Acme'') (Str ''Jane'')
      ''Hi [Recruiter Name] at [Company Name]'' [] Map.empty = Inr ''generated text''"
proof -
  let ?tpl = "''Hi [Recruiter Name] at [Company Name]''"
  have h1: "\<not> model_configured sample_world" by (simp add: sample_world_def)
  have four: "replace ''[RECRUITER]'' ''Jane'' (replace ''[COMPANY]'' ''Acme''
                (replace ''[Recruiter Name]'' ''Jane'' (replace ''[Company Name]'' ''Acme'' ?tpl)))
              = ''Hi Jane at Acme''"
    by simp
  have h2: "\<not> sublist newline3 ''Hi Jane at Acme''"
    by (simp add: newline3_def sublist_Cons_right)
  have h3: "model_configured override_world \<and> ''generated text'' \<noteq> [] \<and>
            generate_content override_world (Str ''Acme'') (Str ''Jane'') ?tpl [] Map.empty
              = GenText ''generated text''"
    by (simp add: override_world_def sample_world_def)
  note T1 = generation_fallback[where w=sample_world and cn="''Acme''" and rn="''Jane''"
              and tpl="?tpl" and res="[]" and r=Map.empty, unfolded four]
  note T2 = generation_fallback[where w=override_world and cn="''Acme''" and rn="''Jane''"
              and tpl="?tpl" and res="[]" and r=Map.empty]
  from T1 h1 h2 have r1: "personalize_email sample_world (Str ''Acme'') (Str ''Jane'') ?tpl []
              Map.empty = substitute_body ?tpl (Str ''Acme'') (Str ''Jane'')"
    by blast
  have sb: "substitute_body ?tpl (Str ''Acme'') (Str ''Jane'') = Inr ''Hi Jane at Acme''"
    by (simp add: substitute_body_def bind_exn_def)
  from T2 h3 have "personalize_email override_world (Str ''Acme'') (Str ''Jane'') ?tpl []
              Map.empty = Inr (strip ''generated text'')"
    by blast
  then have r2: "personalize_email override_world (Str ''Acme'') (Str ''Jane'') ?tpl []
              Map.empty = Inr ''generated text''"
    by (simp add: strip_def is_space_def)
  from r1 sb r2 show ?thesis by simp
qed

text \<open>
  C6 as stated fails twice. A short reply of the backend is not replaced by the fallback:
  the two characters are the body. And the fallback is not always the templated body: of
  three line breaks in the template it keeps two.
\<close>

theorem generation_fallback_counterexample:
  "personalize_email short_reply_world (Str ''Acme'') (Str ''Jane'')
      ''Hi [Recruiter Name] at [Company Name]'' [] Map.empty = Inr ''Hi''
   \<and> substitute_body ''Hi [Recruiter Name] at [Company Name]'' (Str ''Acme'') (Str ''Jane'')
       = Inr ''Hi Jane at Acme''
   \<and> personalize_email sample_world (Str ''Acme'') (Str ''Jane'')
       (''Dear [Recruiter Name],'' @ newline3 @ ''Regards'') [] Map.empty
       = Inr (''Dear Jane,'' @ newline2 @ ''Regards'')
   \<and> substitute_body (''Dear [Recruiter Name],'' @ newline3 @ ''Regards'')
       (Str ''Acme'') (Str ''Jane'') = Inr (''Dear Jane,'' @ newline3 @ ''Regards'')"
  by (simp add: campaign_defs sample_defs short_reply_world_def strip_def is_space_def
                newline3_def newline2_def)

end
